theory Spec2Isabelle
  imports Complex_Main
begin

section \<open>Python values used by the retrieval core\<close>

text \<open>
  Strings are lists of characters with code points below 256; \<open>lower\<close> and \<open>split\<close>
  treat them as Python's \<^verbatim>\<open>str\<close> treats those code points. Python floats are modelled
  by exact rationals: every threshold and weight of the scorer is a decimal fraction, and
  the scores are compared only with such fractions and with each other. Two scores that
  are equal as rationals may differ in the last bit as floats, so the order of tied
  documents is not a property of this model.
\<close>

datatype pyval = VStr string | VNum rat | VBool bool | VList "pyval list"

datatype error = AttributeError string | KeyError string | ZeroDivisionError

subsection \<open>String primitives\<close>

text \<open>
  \<^verbatim>\<open>str.lower()\<close>: the letters A to Z, and the upper-case letters from 0xC0 to 0xDE (the
  multiplication sign 0xD7 is not one), move up by 32.
\<close>

definition lower_char :: "char \<Rightarrow> char" where
  "lower_char c =
     (let n = (of_char c :: nat)
      in if (65 \<le> n \<and> n \<le> 90) \<or> (192 \<le> n \<and> n \<le> 222 \<and> n \<noteq> 215)
         then char_of (n + 32) else c)"

definition lower :: "string \<Rightarrow> string" where
  "lower s = map lower_char s"

text \<open>
  The characters \<^verbatim>\<open>str.split()\<close> splits on: tab to carriage return, the four
  separators from 0x1C, the space, the next-line control 0x85 and the no-break space 0xA0.
\<close>

definition is_space :: "char \<Rightarrow> bool" where
  "is_space c =
     (let n = (of_char c :: nat)
      in (9 \<le> n \<and> n \<le> 13) \<or> (28 \<le> n \<and> n \<le> 32) \<or> n = 133 \<or> n = 160)"

text \<open>\<^verbatim>\<open>s.split()\<close>: the maximal runs of non-whitespace characters, in order.\<close>

fun split_acc :: "string \<Rightarrow> string \<Rightarrow> string list" where
  "split_acc cur [] = (if cur = [] then [] else [rev cur])"
| "split_acc cur (c # cs) =
     (if is_space c
      then (if cur = [] then split_acc [] cs else rev cur # split_acc [] cs)
      else split_acc (c # cur) cs)"

definition split :: "string \<Rightarrow> string list" where
  "split s = split_acc [] s"

text \<open>\<^verbatim>\<open>s.strip(chars)\<close>: drop the characters of \<open>chars\<close> from both ends.\<close>

definition strip :: "string \<Rightarrow> string \<Rightarrow> string" where
  "strip chars s =
     rev (dropWhile (\<lambda>c. c \<in> set chars) (rev (dropWhile (\<lambda>c. c \<in> set chars) s)))"

text \<open>\<^verbatim>\<open>s.startswith(p)\<close>, comparing character by character from the left.\<close>

fun startswith :: "string \<Rightarrow> string \<Rightarrow> bool" where
  "startswith s [] = True"
| "startswith [] (p # ps) = False"
| "startswith (c # cs) (p # ps) = (c = p \<and> startswith cs ps)"

definition endswith :: "string \<Rightarrow> string \<Rightarrow> bool" where
  "endswith s p = (length p \<le> length s \<and> drop (length s - length p) s = p)"

text \<open>\<^verbatim>\<open>sub in s\<close> on strings: \<open>sub\<close> occurs in \<open>s\<close> as a contiguous block.\<close>

fun str_in :: "string \<Rightarrow> string \<Rightarrow> bool" where
  "str_in sub [] = (sub = [])"
| "str_in sub (c # cs) = (startswith (c # cs) sub \<or> str_in sub cs)"

text \<open>\<^verbatim>\<open>xs[:k]\<close> for a Python integer \<open>k\<close>: a negative bound counts from the end.\<close>

definition slice_to :: "'a list \<Rightarrow> int \<Rightarrow> 'a list" where
  "slice_to xs k = (if 0 \<le> k then take (nat k) xs else take (length xs - nat (- k)) xs)"

section \<open>Data model\<close>

datatype DocumentType = POLICY | TECHNICAL | BUSINESS | TRAINING | GENERAL

text \<open>The dataclass \<^verbatim>\<open>Document\<close>; its field \<^verbatim>\<open>id\<close> is \<open>doc_id\<close> here.\<close>

record Document =
  doc_id :: string
  content :: string
  doc_type :: DocumentType
  metadata :: "(string \<times> pyval) list"
  relevance_score :: rat

record RetrievalResult =
  documents :: "Document list"
  query :: string
  persona :: string
  total_retrieved :: nat
  retrieval_metadata :: "(string \<times> pyval) list"

record PersonaFilterConfig =
  preferred_types :: "DocumentType list"
  content_keywords :: "string list"
  exclude_keywords :: "string list"
  max_documents :: nat
  min_relevance :: rat

section \<open>Document store\<close>

text \<open>
  The store is a Python dict from id to document. A dict keeps insertion order and
  assigning to a key that is present keeps that key's position, so the dict is an
  association list updated in place.
\<close>

type_synonym DocumentStore = "(string \<times> Document) list"

fun dict_set :: "('k \<times> 'v) list \<Rightarrow> 'k \<Rightarrow> 'v \<Rightarrow> ('k \<times> 'v) list" where
  "dict_set [] k v = [(k, v)]"
| "dict_set ((k', v') # kvs) k v =
     (if k' = k then (k, v) # kvs else (k', v') # dict_set kvs k v)"

definition mk_doc :: "string \<Rightarrow> string \<Rightarrow> DocumentType \<Rightarrow> (string \<times> pyval) list \<Rightarrow> Document" where
  "mk_doc i c t m =
     \<lparr>doc_id = i, content = c, doc_type = t, metadata = m, relevance_score = 0\<rparr>"

definition policy_001 :: Document where
  "policy_001 = mk_doc ''policy_001''
     ''Remote Work Policy: Employees may work remotely up to 3 days per week with manager approval. This policy supports work-life balance while maintaining team collaboration. All remote work must be logged in the time tracking system.''
     POLICY
     [(''department'', VStr ''HR''), (''effective_date'', VStr ''2024-01-01''),
      (''priority'', VStr ''high'')]"

definition tech_001 :: Document where
  "tech_001 = mk_doc ''tech_001''
     (''Authentication System: The system uses JWT tokens for authentication. Tokens are generated server-side using a secret key and contain user claims. The token is sent in the Authorization header as '' @ [CHR 0x27] @ ''Bearer <token>'' @ [CHR 0x27] @ ''. Tokens expire after 24 hours and must be refreshed using the refresh endpoint.'')
     TECHNICAL
     [(''system'', VStr ''auth''), (''complexity'', VStr ''medium''),
      (''dependencies'', VList [VStr ''JWT'', VStr ''OAuth2''])]"

definition business_001 :: Document where
  "business_001 = mk_doc ''business_001''
     ''Q3 Financial Results: Revenue increased by 15% year-over-year to $2.5M. Customer acquisition cost decreased by 8% while retention improved to 92%. The new product line contributed 30% of total revenue with strong market adoption.''
     BUSINESS
     [(''quarter'', VStr ''Q3''), (''year'', VStr ''2024''), (''department'', VStr ''Finance'')]"

definition trends_001 :: Document where
  "trends_001 = mk_doc ''trends_001''
     ''Q1 2025 Business Trends: AI adoption accelerating across enterprises with 67% increasing investment. Remote work hybrid models becoming standard with 3-4 days office requirement. Supply chain diversification priority due to geopolitical risks. Sustainability reporting now mandatory for public companies. Cybersecurity budgets increasing by 25% YoY. Key takeaways include AI transformation, hybrid work adoption, and risk management priorities.''
     BUSINESS
     [(''quarter'', VStr ''Q1''), (''year'', VStr ''2025''), (''category'', VStr ''trends'')]"

definition training_001 :: Document where
  "training_001 = mk_doc ''training_001''
     ''Onboarding Process: New employees complete a 2-week onboarding program. Week 1 covers company policies, tools training, and team introductions. Week 2 focuses on role-specific training and project assignments. Each new hire is assigned a mentor for the first 90 days.''
     TRAINING
     [(''duration'', VStr ''2 weeks''), (''target'', VStr ''new_hires''), (''required'', VBool True)]"

definition general_001 :: Document where
  "general_001 = mk_doc ''general_001''
     ''Company Culture: We value innovation, collaboration, and continuous learning. Regular team meetings, hackathons, and knowledge sharing sessions are encouraged. The company supports professional development with annual training budgets.''
     GENERAL
     [(''category'', VStr ''culture''), (''audience'', VStr ''all_employees'')]"

definition challenges_001 :: Document where
  "challenges_001 = mk_doc ''challenges_001''
     ''Industry Challenges: The technology sector faces significant challenges including talent shortages in AI and cybersecurity fields, increasing regulatory compliance requirements, and pressure to adopt sustainable practices. Companies struggle with digital transformation costs while maintaining legacy system compatibility. Competition for skilled workers has increased salaries by 20% YoY. Data privacy regulations like GDPR and CCPA require significant investment in compliance infrastructure. Supply chain disruptions have increased operational costs by 15%. Customer expectations for 24/7 service require major infrastructure investments.''
     BUSINESS
     [(''category'', VStr ''challenges''), (''industry'', VStr ''technology''),
      (''year'', VStr ''2024'')]"

definition sample_docs :: "Document list" where
  "sample_docs =
     [policy_001, tech_001, business_001, trends_001, training_001, general_001,
      challenges_001]"

definition add_document :: "DocumentStore \<Rightarrow> Document \<Rightarrow> DocumentStore" where
  "add_document store document = dict_set store (doc_id document) document"

definition initialize_sample_documents :: "DocumentStore \<Rightarrow> DocumentStore" where
  "initialize_sample_documents store = fold (\<lambda>doc s. dict_set s (doc_id doc) doc) sample_docs store"

definition DocumentStore_init :: DocumentStore where
  "DocumentStore_init = initialize_sample_documents []"

definition get_document :: "DocumentStore \<Rightarrow> string \<Rightarrow> Document option" where
  "get_document store i = map_of store i"

definition get_all_documents :: "DocumentStore \<Rightarrow> Document list" where
  "get_all_documents store = map snd store"

section \<open>Persona filter\<close>

definition persona_filters :: "string \<Rightarrow> PersonaFilterConfig option" where
  "persona_filters p =
    (if p = ''Executive'' then Some
       \<lparr>preferred_types = [BUSINESS, POLICY],
        content_keywords = [''revenue'', ''cost'', ''roi'', ''strategy'', ''risk'', ''impact'',
          ''challenges'', ''industry''],
        exclude_keywords = [''implementation'', ''code'', ''technical'', ''debug''],
        max_documents = 3, min_relevance = 3 / 10\<rparr>
     else if p = ''Developer'' then Some
       \<lparr>preferred_types = [TECHNICAL, TRAINING, BUSINESS],
        content_keywords = [''code'', ''api'', ''system'', ''implementation'', ''architecture'',
          ''business'', ''trends'', ''challenges'', ''industry''],
        exclude_keywords = [''executive'', ''financial'', ''legal''],
        max_documents = 5, min_relevance = 4 / 10\<rparr>
     else if p = ''HR Specialist'' then Some
       \<lparr>preferred_types = [POLICY, TRAINING, GENERAL, BUSINESS],
        content_keywords = [''policy'', ''employee'', ''compliance'', ''process'', ''procedure'',
          ''business'', ''trends'', ''challenges'', ''industry''],
        exclude_keywords = [''code'', ''technical'', ''revenue'', ''financial''],
        max_documents = 4, min_relevance = 3 / 10\<rparr>
     else if p = ''Student'' then Some
       \<lparr>preferred_types = [TRAINING, GENERAL, TECHNICAL, BUSINESS],
        content_keywords = [''learn'', ''tutorial'', ''guide'', ''example'', ''process'',
          ''business'', ''trends'', ''takeaways'', ''key'', ''challenges'', ''industry''],
        exclude_keywords = [''executive'', ''financial'', ''legal''],
        max_documents = 3, min_relevance = 2 / 10\<rparr>
     else if p = ''General'' then Some
       \<lparr>preferred_types = [GENERAL, BUSINESS, POLICY],
        content_keywords = [''company'', ''culture'', ''team'', ''business'', ''trends'',
          ''challenges'', ''industry''],
        exclude_keywords = [''code'', ''implementation'', ''debug''],
        max_documents = 4, min_relevance = 25 / 100\<rparr>
     else None)"

text \<open>
  \<^verbatim>\<open>list.sort(key=lambda x: x.relevance_score, reverse=True)\<close>: descending and stable
  (documents of equal score keep their order).
\<close>

definition sort_by_relevance :: "Document list \<Rightarrow> Document list" where
  "sort_by_relevance ds = sort_key (\<lambda>d. - relevance_score d) ds"

definition passes_filter :: "PersonaFilterConfig \<Rightarrow> Document \<Rightarrow> bool" where
  "passes_filter filters doc =
     (if doc_type doc \<notin> set (preferred_types filters) \<and> relevance_score doc < 7 / 10
      then False
      else if list_ex (\<lambda>keyword. str_in (lower keyword) (lower (content doc)))
                (exclude_keywords filters)
      then False
      else if relevance_score doc < min_relevance filters then False
      else True)"

definition filter_documents :: "Document list \<Rightarrow> string \<Rightarrow> Document list" where
  "filter_documents docs p =
     (case persona_filters p of
        None \<Rightarrow> docs
      | Some filters \<Rightarrow>
          take (max_documents filters) (sort_by_relevance (filter (passes_filter filters) docs)))"

section \<open>Relevance scorer\<close>

definition common_words :: "string list" where
  "common_words = [''the'', ''is'', ''are'', ''a'', ''an'', ''and'', ''or'', ''but'', ''in'',
     ''on'', ''at'', ''to'', ''for'', ''of'', ''with'', ''by'', ''when'', ''where'', ''how'',
     ''why'', ''what'', ''our'', ''your'', ''their'', ''we'', ''they'', ''you'', ''me'', ''us'',
     ''them'']"

definition query_terms :: "string \<Rightarrow> string list" where
  "query_terms query_lower =
     map (strip ''?.!'')
       (filter (\<lambda>t. t \<notin> set common_words \<and> length (strip ''?.!'' t) > 2) (split query_lower))"

text \<open>The singular/plural variant the scorer adds for one query term.\<close>

definition variation :: "string \<Rightarrow> string" where
  "variation t =
     (if endswith t ''ies'' then take (length t - 3) t @ ''y''
      else if endswith t ''s'' then take (length t - 1) t
      else t @ ''s'')"

text \<open>
  The Python set \<^verbatim>\<open>expanded_terms\<close> as a duplicate-free list; the scorer only counts over
  it, so the iteration order of the set does not matter.
\<close>

definition expanded_terms :: "string list \<Rightarrow> string list" where
  "expanded_terms qts = remdups (qts @ map variation qts)"

definition is_exact :: "string \<Rightarrow> string \<Rightarrow> bool" where
  "is_exact t doc_lower =
     (str_in ('' '' @ t @ '' '') ('' '' @ doc_lower @ '' '')
      \<or> startswith doc_lower (t @ '' '') \<or> endswith doc_lower ('' '' @ t))"

text \<open>One iteration of the matching loop on the pair (exact_matches, partial_matches).\<close>

definition match_step :: "string \<Rightarrow> string \<Rightarrow> nat \<times> nat \<Rightarrow> nat \<times> nat" where
  "match_step doc_lower t acc =
     (case acc of (exact_matches, partial_matches) \<Rightarrow>
        if str_in t doc_lower
        then (if is_exact t doc_lower then (exact_matches + 2, partial_matches)
              else (exact_matches, partial_matches + 1))
        else (exact_matches, partial_matches))"

definition count_matches :: "string \<Rightarrow> string list \<Rightarrow> nat \<times> nat" where
  "count_matches doc_lower ts = fold (match_step doc_lower) ts (0, 0)"

definition topic_bonus :: "string \<Rightarrow> string \<Rightarrow> rat" where
  "topic_bonus query_lower doc_lower =
     (let both = (\<lambda>w. str_in w query_lower \<and> str_in w doc_lower);
          b0 = 0;
          b1 = (if both ''authentication'' then b0 + 5 / 10 else b0);
          b2 = (if both ''system'' then b1 + 3 / 10 else b1);
          b3 = (if both ''jwt'' then b2 + 4 / 10 else b2);
          b4 = (if both ''token'' then b3 + 3 / 10 else b3);
          b5 = (if both ''cybersecurity'' then b4 + 2 / 10 else b4)
      in b5)"

definition keyword_bonus :: "string list \<Rightarrow> string \<Rightarrow> rat" where
  "keyword_bonus preferred_keywords doc_lower =
     fold (\<lambda>keyword b. if str_in (lower keyword) doc_lower then b + 1 / 10 else b)
       preferred_keywords 0"

text \<open>Python's true division \<^verbatim>\<open>a / b\<close>, which raises on a zero divisor.\<close>

definition py_div :: "rat \<Rightarrow> rat \<Rightarrow> error + rat" where
  "py_div a b = (if b = 0 then Inl ZeroDivisionError else Inr (a / b))"

definition persona_keywords :: "string \<Rightarrow> string list" where
  "persona_keywords p = (case persona_filters p of None \<Rightarrow> [] | Some f \<Rightarrow> content_keywords f)"

definition persona_types :: "string \<Rightarrow> DocumentType list" where
  "persona_types p = (case persona_filters p of None \<Rightarrow> [] | Some f \<Rightarrow> preferred_types f)"

definition type_bonus :: "string \<Rightarrow> Document \<Rightarrow> rat" where
  "type_bonus p document = (if doc_type document \<in> set (persona_types p) then 2 / 10 else 0)"

definition calculate_relevance :: "Document \<Rightarrow> string \<Rightarrow> string \<Rightarrow> error + rat" where
  "calculate_relevance document q p =
     (let query_lower = lower q;
          doc_lower = lower (content document);
          terms = expanded_terms (query_terms query_lower)
      in if terms = [] then Inr 0
         else
           let total_matches = (case count_matches doc_lower terms of (e, pm) \<Rightarrow> e + pm)
           in case py_div (rat_of_nat total_matches) (rat_of_nat (length terms * 2)) of
                Inl err \<Rightarrow> Inl err
              | Inr query_coverage \<Rightarrow>
                  if query_coverage < 3 / 10 then Inr 0
                  else
                    let total_doc_words = length (split doc_lower)
                    in if total_doc_words = 0 then Inr 0
                       else
                         (case py_div (rat_of_nat total_matches) (rat_of_nat total_doc_words) of
                            Inl err \<Rightarrow> Inl err
                          | Inr matched_density \<Rightarrow>
                              if matched_density < 1 / 100 then Inr 0
                              else
                                Inr (min (query_coverage * (4 / 10) + matched_density * (2 / 10)
                                          + topic_bonus query_lower doc_lower
                                          + keyword_bonus (persona_keywords p) doc_lower
                                          + type_bonus p document) 1)))"

section \<open>Retriever\<close>

text \<open>
  \<^verbatim>\<open>retrieve_documents\<close> writes each score into the stored document before it
  ranks, so the model returns the result together with the store after the call. An
  exception raised by the scorer leaves the loop and the call.
\<close>

fun score_all :: "string \<Rightarrow> string \<Rightarrow> DocumentStore \<Rightarrow> error + DocumentStore" where
  "score_all q p [] = Inr []"
| "score_all q p ((k, doc) # rest) =
     (case calculate_relevance doc q p of
        Inl err \<Rightarrow> Inl err
      | Inr relevance \<Rightarrow>
          (case score_all q p rest of
             Inl err \<Rightarrow> Inl err
           | Inr rest' \<Rightarrow> Inr ((k, doc\<lparr>relevance_score := relevance\<rparr>) # rest')))"

definition avg_relevance :: "Document list \<Rightarrow> error + rat" where
  "avg_relevance filtered_docs =
     (if filtered_docs \<noteq> []
      then py_div (sum_list (map relevance_score filtered_docs))
             (rat_of_nat (length filtered_docs))
      else Inr 0)"

definition retrieve_documents ::
  "DocumentStore \<Rightarrow> string \<Rightarrow> string \<Rightarrow> int \<Rightarrow> error + RetrievalResult \<times> DocumentStore" where
  "retrieve_documents store q p top_k =
     (case score_all q p store of
        Inl err \<Rightarrow> Inl err
      | Inr store' \<Rightarrow>
          let scored_docs = filter (\<lambda>doc. relevance_score doc > 1 / 10) (get_all_documents store')
          in if scored_docs = []
             then Inr (\<lparr>documents = [], query = q, persona = p, total_retrieved = 0,
                        retrieval_metadata = [(''reason'', VStr ''no_relevant_documents'')]\<rparr>,
                       store')
             else
               let filtered_docs =
                     filter_documents (slice_to (sort_by_relevance scored_docs) top_k) p
               in (case avg_relevance filtered_docs of
                     Inl err \<Rightarrow> Inl err
                   | Inr avg \<Rightarrow>
                       Inr (\<lparr>documents = filtered_docs, query = q, persona = p,
                             total_retrieved = length filtered_docs,
                             retrieval_metadata = [(''avg_relevance'', VNum avg)]\<rparr>, store')))"

section \<open>Store invariant\<close>

text \<open>
  Every key of the store is the id of the document stored under it, and no key occurs
  twice.
\<close>

definition store_inv :: "DocumentStore \<Rightarrow> bool" where
  "store_inv store = (distinct (map fst store) \<and> list_all (\<lambda>(k, d). doc_id d = k) store)"

section \<open>Example documents\<close>

text \<open>A business document that mentions code, with the highest possible score.\<close>

definition review_doc :: Document where
  "review_doc =
     \<lparr>doc_id = ''review_001'', content = ''Source CODE review'', doc_type = BUSINESS,
      metadata = [], relevance_score = 1\<rparr>"

text \<open>Technical documents scored below and above 0.7.\<close>

definition weak_doc :: Document where
  "weak_doc =
     \<lparr>doc_id = ''tech_003'', content = ''Release checklist'', doc_type = TECHNICAL,
      metadata = [], relevance_score = 69 / 100\<rparr>"

definition strong_doc :: Document where
  "strong_doc =
     \<lparr>doc_id = ''tech_004'', content = ''Deployment runbook'', doc_type = TECHNICAL,
      metadata = [], relevance_score = 9 / 10\<rparr>"

text \<open>A technical document whose score is exactly 0.7.\<close>

definition borderline_doc :: Document where
  "borderline_doc =
     \<lparr>doc_id = ''tech_002'', content = ''Deployment overview'', doc_type = TECHNICAL,
      metadata = [], relevance_score = 7 / 10\<rparr>"

section \<open>Observing a retrieval\<close>

text \<open>What a call of \<^verbatim>\<open>retrieve_documents\<close> returned: ids with scores, and metadata.\<close>

definition returned_scores ::
  "error + RetrievalResult \<times> DocumentStore \<Rightarrow> error + (string \<times> rat) list" where
  "returned_scores x =
     map_sum id (\<lambda>rs. map (\<lambda>d. (doc_id d, relevance_score d)) (documents (fst rs))) x"

definition returned_metadata ::
  "error + RetrievalResult \<times> DocumentStore \<Rightarrow> error + (string \<times> pyval) list" where
  "returned_metadata x = map_sum id (\<lambda>rs. retrieval_metadata (fst rs)) x"

text \<open>The id of the top-ranked document, if the call returned one.\<close>

definition top_id :: "error + RetrievalResult \<times> DocumentStore \<Rightarrow> string option" where
  "top_id x =
     (case x of
        Inl err \<Rightarrow> None
      | Inr rs \<Rightarrow> (case documents (fst rs) of [] \<Rightarrow> None | d # ds \<Rightarrow> Some (doc_id d)))"

text \<open>
  What \<^verbatim>\<open>retrieve_documents("revenue", "HR Specialist", 10)\<close> returns on the sample
  corpus, and the store it leaves behind.
\<close>

definition revenue_HR_result :: RetrievalResult where
  "revenue_HR_result =
     \<lparr>documents = [], query = ''revenue'', persona = ''HR Specialist'', total_retrieved = 0,
      retrieval_metadata = [(''avg_relevance'', VNum 0)]\<rparr>"

definition revenue_HR_store :: DocumentStore where
  "revenue_HR_store =
     [(''policy_001'', policy_001\<lparr>relevance_score := 0\<rparr>),
      (''tech_001'', tech_001\<lparr>relevance_score := 0\<rparr>),
      (''business_001'', business_001\<lparr>relevance_score := 7 / 17\<rparr>),
      (''trends_001'', trends_001\<lparr>relevance_score := 0\<rparr>),
      (''training_001'', training_001\<lparr>relevance_score := 0\<rparr>),
      (''general_001'', general_001\<lparr>relevance_score := 0\<rparr>),
      (''challenges_001'', challenges_001\<lparr>relevance_score := 0\<rparr>)]"

section \<open>The scoring formula in the words of the specification\<close>

text \<open>
  A term occurs in the document at position \<open>i\<close>; the occurrence is delimited when it
  has a space or the end of the text on each side. A candidate term is an exact match
  when it has a delimited occurrence, a partial match when it occurs but never delimited.
\<close>

definition occurs_at :: "string \<Rightarrow> string \<Rightarrow> nat \<Rightarrow> bool" where
  "occurs_at doc t i = (i + length t \<le> length doc \<and> take (length t) (drop i doc) = t)"

definition delimited_at :: "string \<Rightarrow> string \<Rightarrow> nat \<Rightarrow> bool" where
  "delimited_at doc t i =
     (occurs_at doc t i
      \<and> (i = 0 \<or> doc ! (i - 1) = CHR '' '')
      \<and> (i + length t = length doc \<or> doc ! (i + length t) = CHR '' ''))"

definition exact_term :: "string \<Rightarrow> string \<Rightarrow> bool" where
  "exact_term doc t = list_ex (delimited_at doc t) [0..<Suc (length doc)]"

definition partial_term :: "string \<Rightarrow> string \<Rightarrow> bool" where
  "partial_term doc t = (list_ex (occurs_at doc t) [0..<Suc (length doc)] \<and> \<not> exact_term doc t)"

text \<open>
  Exact matches weigh 2 and partial matches 1; the coverage divides the weighted total by
  twice the number of candidate terms, the density by the number of words of the document.
\<close>

definition weighted_matches :: "string \<Rightarrow> string list \<Rightarrow> nat" where
  "weighted_matches doc ts =
     2 * card (Set.filter (exact_term doc) (set ts)) + card (Set.filter (partial_term doc) (set ts))"

definition spec_query_coverage :: "string \<Rightarrow> string list \<Rightarrow> rat" where
  "spec_query_coverage doc ts =
     rat_of_nat (weighted_matches doc ts) / rat_of_nat (2 * card (set ts))"

definition spec_matched_density :: "string \<Rightarrow> string list \<Rightarrow> rat" where
  "spec_matched_density doc ts =
     rat_of_nat (weighted_matches doc ts) / rat_of_nat (length (split doc))"

section \<open>Prompt assembly\<close>

text \<open>The enumerations \<^verbatim>\<open>Persona\<close> and \<^verbatim>\<open>PersonaType\<close>, and their \<^verbatim>\<open>value\<close> strings.\<close>

datatype Persona =
  Persona_EXECUTIVE | Persona_DEVELOPER | Persona_HR_SPECIALIST | Persona_STUDENT
  | Persona_GENERAL

datatype PersonaType =
  PersonaType_EXECUTIVE | PersonaType_DEVELOPER | PersonaType_HR_SPECIALIST
  | PersonaType_STUDENT | PersonaType_GENERAL

fun Persona_value :: "Persona \<Rightarrow> string" where
  "Persona_value Persona_EXECUTIVE = ''Executive''"
| "Persona_value Persona_DEVELOPER = ''Developer''"
| "Persona_value Persona_HR_SPECIALIST = ''HR Specialist''"
| "Persona_value Persona_STUDENT = ''Student''"
| "Persona_value Persona_GENERAL = ''General''"

fun PersonaType_value :: "PersonaType \<Rightarrow> string" where
  "PersonaType_value PersonaType_EXECUTIVE = ''Executive''"
| "PersonaType_value PersonaType_DEVELOPER = ''Developer''"
| "PersonaType_value PersonaType_HR_SPECIALIST = ''HR Specialist''"
| "PersonaType_value PersonaType_STUDENT = ''Student''"
| "PersonaType_value PersonaType_GENERAL = ''General''"

fun DocumentType_value :: "DocumentType \<Rightarrow> string" where
  "DocumentType_value POLICY = ''policy''"
| "DocumentType_value TECHNICAL = ''technical''"
| "DocumentType_value BUSINESS = ''business''"
| "DocumentType_value TRAINING = ''training''"
| "DocumentType_value GENERAL = ''general''"

fun persona_mapping :: "Persona \<Rightarrow> PersonaType" where
  "persona_mapping Persona_EXECUTIVE = PersonaType_EXECUTIVE"
| "persona_mapping Persona_DEVELOPER = PersonaType_DEVELOPER"
| "persona_mapping Persona_HR_SPECIALIST = PersonaType_HR_SPECIALIST"
| "persona_mapping Persona_STUDENT = PersonaType_STUDENT"
| "persona_mapping Persona_GENERAL = PersonaType_GENERAL"

text \<open>\<^verbatim>\<open>sep.join(parts)\<close>.\<close>

fun join :: "string \<Rightarrow> string list \<Rightarrow> string" where
  "join sep [] = []"
| "join sep [x] = x"
| "join sep (x # y # ys) = x @ sep @ join sep (y # ys)"

definition newline :: string where
  "newline = [CHR 0x0A]"

record RoleExtension =
  system_prompt :: "string list"
  answer_style :: "string list"
  tone_guidelines :: "string list"
  content_filters :: "string list"
  response_format :: "string list"

text \<open>The table built by \<^verbatim>\<open>_initialize_role_extensions\<close>, one entry per persona type.\<close>

fun role_extensions :: "PersonaType \<Rightarrow> RoleExtension" where
  \<open>role_extensions PersonaType_EXECUTIVE =
     \<lparr>system_prompt =
         [''You are PersonaRAG acting as an Executive-level assistant.'',
          ''Your task:'',
          ''1. Carefully understand the user's specific question.'',
          ''2. Identify the main topic of the question (policy, goals, strategy, technology, etc.).'',
          ''3. Answer the question using retrieved documents ONLY.'',
          ''4. Present the answer in an executive style:'',
          ''   - Strategic'',
          ''   - High-level'',
          ''   - Business-focused'',
          ''   - No technical details'',
          ''5. Do NOT reuse generic phrases.'',
          ''6. Ensure each answer is specific to the question asked.'',
          ''If documents do not contain the answer, clearly state that information is not available.''],
      answer_style =
         [''High-level strategic summary'',
          ''Focus on ROI, risks, and business impact'',
          ''Avoid technical implementation details'',
          ''Keep responses concise and decision-oriented'',
          ''Include competitive implications when relevant''],
      tone_guidelines =
         [''Strategic and forward-thinking'',
          ''Business-focused and results-oriented'',
          ''Confident and authoritative'',
          ''Avoid technical jargon and acronyms'',
          ''Use business metrics and KPIs''],
      content_filters =
         [''Remove low-level technical details'',
          ''Focus on business outcomes and impact'',
          ''Emphasize competitive advantages'',
          ''Include cost/benefit analysis'',
          ''Highlight strategic alignment''],
      response_format =
         [''Start with executive summary'',
          ''Follow with key implications'',
          ''End with recommendation or next steps'']\<rparr>\<close>
| \<open>role_extensions PersonaType_DEVELOPER =
     \<lparr>system_prompt =
         [''You are PersonaRAG acting as a Developer-level assistant.'',
          ''Your task:'',
          ''1. Carefully understand the user's specific technical question.'',
          ''2. Identify the main technical topic (API, database, architecture, security, etc.).'',
          ''3. Answer the question using retrieved documents ONLY.'',
          ''4. Present the answer in a developer style:'',
          ''   - Technical and detailed'',
          ''   - Implementation-focused'',
          ''   - Include code examples when relevant'',
          ''5. Do NOT reuse generic phrases.'',
          ''6. Ensure each answer is specific to the technical question asked.'',
          ''If documents do not contain the answer, clearly state that technical information is not available.''],
      answer_style =
         [''Technical and detailed explanations'',
          ''Use precise industry terminology'',
          ''Provide step-by-step implementation guidance'',
          ''Include code examples and architectural patterns'',
          ''Reference best practices and design patterns''],
      tone_guidelines =
         [''Technical and precise'',
          ''Practical and implementation-focused'',
          ''Problem-solving oriented'',
          ''Use correct technical terminology'',
          ''Be thorough and comprehensive''],
      content_filters =
         [''Include technical implementation details'',
          ''Provide code snippets and examples'',
          ''Reference relevant frameworks/libraries'',
          ''Include performance considerations'',
          ''Add debugging and testing guidance''],
      response_format =
         [''Technical overview'',
          ''Implementation steps'',
          ''Code examples'',
          ''Best practices'',
          ''Common pitfalls to avoid'']\<rparr>\<close>
| \<open>role_extensions PersonaType_HR_SPECIALIST =
     \<lparr>system_prompt =
         [''You are PersonaRAG acting as an HR Specialist assistant.'',
          ''Your task:'',
          ''1. Carefully understand the user's specific HR question.'',
          ''2. Identify the main HR topic (policy, benefits, compliance, employee relations, etc.).'',
          ''3. Answer the question using retrieved documents ONLY.'',
          ''4. Present the answer in an HR style:'',
          ''   - Empathetic and people-focused'',
          ''   - Policy-oriented and compliant'',
          ''   - Clear process explanations'',
          ''5. Do NOT reuse generic phrases.'',
          ''6. Ensure each answer is specific to the HR question asked.'',
          ''If documents do not contain the answer, clearly state that HR policy information is not available.''],
      answer_style =
         [''Empathetic and people-focused'',
          ''Policy-oriented and compliant'',
          ''Clear process explanations'',
          ''Include legal and compliance considerations'',
          ''Focus on fairness and consistency''],
      tone_guidelines =
         [''Empathetic and understanding'',
          ''Compliance-focused and careful'',
          ''Clear and procedural'',
          ''Professional and supportive'',
          ''Risk-aware and cautious''],
      content_filters =
         [''Include compliance and legal considerations'',
          ''Focus on people impact and experience'',
          ''Reference relevant policies and procedures'',
          ''Include privacy and confidentiality notes'',
          ''Emphasize fairness and consistency''],
      response_format =
         [''Policy overview'',
          ''People impact assessment'',
          ''Compliance considerations'',
          ''Recommended actions'',
          ''Risk mitigation steps'']\<rparr>\<close>
| \<open>role_extensions PersonaType_STUDENT =
     \<lparr>system_prompt =
         [''You are PersonaRAG acting as a Student-level assistant.'',
          ''Your task:'',
          ''1. Carefully understand the user's specific learning question.'',
          ''2. Identify the main learning topic (concept, process, technology, etc.).'',
          ''3. Answer the question using retrieved documents ONLY.'',
          ''4. Present the answer in a student style:'',
          ''   - Simple, accessible language'',
          ''   - Explain concepts from basics'',
          ''   - Use analogies and real-world examples'',
          ''5. Do NOT reuse generic phrases.'',
          ''6. Ensure each answer is specific to the learning question asked.'',
          ''If documents do not contain the answer, clearly state that learning information is not available.''],
      answer_style =
         [''Simple, accessible language'',
          ''Explain concepts from basics'',
          ''Use analogies and real-world examples'',
          ''Break down complex topics into steps'',
          ''Encourage learning and exploration''],
      tone_guidelines =
         [''Patient and encouraging'',
          ''Educational and supportive'',
          ''Simple and clear'',
          ''Enthusiastic about learning'',
          ''Avoid overwhelming complexity''],
      content_filters =
         [''Simplify complex concepts'',
          ''Add educational examples and analogies'',
          ''Explain technical terms in simple language'',
          ''Include step-by-step breakdowns'',
          ''Add learning resources or references''],
      response_format =
         [''Simple concept introduction'',
          ''Step-by-step explanation'',
          ''Real-world example'',
          ''Practice exercise or question'',
          ''Additional learning resources'']\<rparr>\<close>
| \<open>role_extensions PersonaType_GENERAL =
     \<lparr>system_prompt =
         [''You are PersonaRAG acting as a General-level assistant.'',
          ''Your task:'',
          ''1. Carefully understand the user's specific question.'',
          ''2. Identify the main topic (policy, technology, benefits, process, etc.).'',
          ''3. Answer the question using retrieved documents ONLY.'',
          ''4. Present the answer in a general style:'',
          ''   - Balanced and moderate detail'',
          ''   - Clear and accessible explanations'',
          ''   - Practical and useful information'',
          ''5. Do NOT reuse generic phrases.'',
          ''6. Ensure each answer is specific to the question asked.'',
          ''If documents do not contain the answer, clearly state that information is not available.''],
      answer_style =
         [''Balanced and moderate detail'',
          ''Clear and accessible explanations'',
          ''Broad appeal and understanding'',
          ''Practical and useful information'',
          ''Avoid extremes of simplicity or complexity''],
      tone_guidelines =
         [''Balanced and neutral'',
          ''Clear and helpful'',
          ''Accessible and inclusive'',
          ''Practical and straightforward'',
          ''Friendly and approachable''],
      content_filters =
         [''Balance technical and non-technical content'',
          ''Ensure broad accessibility'',
          ''Include practical applications'',
          ''Maintain clarity without oversimplifying'',
          ''Add context for better understanding''],
      response_format =
         [''Clear introduction'',
          ''Main explanation'',
          ''Practical implications'',
          ''Key takeaways'',
          ''Additional context if needed'']\<rparr>\<close>

definition build_dynamic_prompt :: "PersonaType \<Rightarrow> string" where
  "build_dynamic_prompt pt =
     (let extension = role_extensions pt
      in join newline
           ([''Current persona: '' @ PersonaType_value pt, []]
            @ system_prompt extension @ [[]]
            @ [''Answer style:''] @ map (\<lambda>style. ''- '' @ style) (answer_style extension) @ [[]]
            @ [''Tone guidelines:''] @ map (\<lambda>tone. ''- '' @ tone) (tone_guidelines extension)
            @ [[]] @ [''Content filters:'']
            @ map (\<lambda>filter_item. ''- '' @ filter_item) (content_filters extension) @ [[]]
            @ [''Response format:'']
            @ map (\<lambda>format_item. ''- '' @ format_item) (response_format extension)))"

definition build_master_system_prompt :: string where
  \<open>build_master_system_prompt =
     join newline
       [''You are PersonaRAG, a personalized knowledge assistant.'',
        [],
        ''Your task is to answer user questions by:'',
        ''1. Adapting your response to the user's active persona (role)'',
        ''2. Using only the provided retrieved documents as the knowledge source'',
        ''3. Matching the tone, depth, and explanation style of the persona'',
        ''4. Keeping answers clear, accurate, and relevant'',
        [],
        ''Rules:'',
        ''- If persona is Executive: be concise, strategic, business-focused, no technical jargon.'',
        ''- If persona is Developer: be technical, precise, include examples or code if relevant.'',
        ''- If persona is HR Specialist: be empathetic, compliant, policy-oriented, and clear.'',
        ''- If persona is Student: explain in simple language with examples.'',
        ''- If persona is General: give a balanced, easy-to-understand answer.'',
        [],
        ''If the answer is not found in the retrieved documents, clearly say:'',
        ''"I don't have enough information from the available knowledge to answer this."'',
        [],
        ''Do NOT hallucinate.'',
        ''Do NOT use external knowledge.'']\<close>

definition build_role_specific_prompt :: "Persona \<Rightarrow> string" where
  "build_role_specific_prompt p = build_dynamic_prompt (persona_mapping p)"

text \<open>Decimal digits of a natural number, as an index is printed.\<close>

definition digit_char :: "nat \<Rightarrow> char" where
  "digit_char n = char_of (48 + n)"

function show_nat :: "nat \<Rightarrow> string" where
  "show_nat n = (if n < 10 then [digit_char n] else show_nat (n div 10) @ [digit_char (n mod 10)])"
  by pat_completeness auto
termination
  by (relation "measure id") auto

text \<open>
  The format \<^verbatim>\<open>{x:.2f}\<close> on a score: two decimals. Python rounds the binary float;
  the model rounds the exact rational, a tie going to the even neighbour. The two can
  differ in the last digit when the rational lies exactly between two hundredths (0.225
  prints as 0.22 here and as 0.23 from the float); no statement below reads these digits.
\<close>

definition round_half_even :: "rat \<Rightarrow> int" where
  "round_half_even x =
     (let f = \<lfloor>x\<rfloor>; d = x - of_int f
      in if d < 1 / 2 then f else if 1 / 2 < d then f + 1 else if even f then f else f + 1)"

definition format_2f :: "rat \<Rightarrow> string" where
  "format_2f x =
     (let n = nat (round_half_even (\<bar>x\<bar> * 100))
      in (if x < 0 \<and> n \<noteq> 0 then ''-'' else [])
         @ show_nat (n div 100) @ ''.'' @ [digit_char (n div 10 mod 10), digit_char (n mod 10)])"

definition build_rag_context :: "RetrievalResult \<Rightarrow> string" where
  "build_rag_context retrieval_result =
     (if documents retrieval_result = [] then ''No relevant documents found for this query.''
      else
        join newline
          ([''Use the following retrieved documents to answer the question.'',
            ''These documents are selected specifically for the current persona.'',
            [],
            ''Retrieved Context:'']
           @ concat
               (map (\<lambda>(i, doc).
                       [''Document '' @ show_nat i @ '':'',
                        content doc,
                        ''[Relevance: '' @ format_2f (relevance_score doc) @ '', Type: ''
                          @ DocumentType_value (doc_type doc) @ '']'',
                        []])
                  (zip [1..<Suc (length (documents retrieval_result))]
                     (documents retrieval_result)))
           @ [''Only use this context to generate the answer.'']))"

text \<open>
  Reading an attribute of a \<^verbatim>\<open>RetrievalResult\<close> by name: the dataclass has the five
  fields below, and any other name raises \<^verbatim>\<open>AttributeError\<close>.
\<close>

datatype attr =
  ADocs "Document list" | AStr string | AInt int | AStrs "string list"
  | ADict "(string \<times> pyval) list"

definition getattr_RetrievalResult :: "RetrievalResult \<Rightarrow> string \<Rightarrow> error + attr" where
  "getattr_RetrievalResult r name =
     (if name = ''documents'' then Inr (ADocs (documents r))
      else if name = ''query'' then Inr (AStr (query r))
      else if name = ''persona'' then Inr (AStr (persona r))
      else if name = ''total_retrieved'' then Inr (AInt (int (total_retrieved r)))
      else if name = ''retrieval_metadata'' then Inr (ADict (retrieval_metadata r))
      else Inl (AttributeError name))"

record PromptComponents =
  master_system_prompt :: string
  role_specific_prompt :: string
  rag_context :: string
  user_question :: string
  prompt_metadata :: "(string \<times> attr) list"

text \<open>
  The state of a \<^verbatim>\<open>CompletePromptBuilder\<close> that its methods write: the persona set in
  its \<^verbatim>\<open>PersonaRAG\<close> object and the document store of its retriever.
\<close>

record CompletePromptBuilder =
  current_persona :: Persona
  doc_store :: DocumentStore

definition CompletePromptBuilder_init :: CompletePromptBuilder where
  "CompletePromptBuilder_init =
     \<lparr>current_persona = Persona_GENERAL, doc_store = DocumentStore_init\<rparr>"

definition build_rag_context_prompt ::
  "CompletePromptBuilder \<Rightarrow> string \<Rightarrow> Persona
     \<Rightarrow> error + (string \<times> RetrievalResult) \<times> CompletePromptBuilder" where
  "build_rag_context_prompt self question p =
     (case retrieve_documents (doc_store self) question (Persona_value p) 10 of
        Inl err \<Rightarrow> Inl err
      | Inr (retrieval_result, store') \<Rightarrow>
          Inr ((build_rag_context retrieval_result, retrieval_result),
               self\<lparr>doc_store := store'\<rparr>))"

definition build_complete_prompt ::
  "CompletePromptBuilder \<Rightarrow> string \<Rightarrow> Persona
     \<Rightarrow> error + PromptComponents \<times> CompletePromptBuilder" where
  "build_complete_prompt self question p =
     (let self1 = self\<lparr>current_persona := p\<rparr>;
          master_prompt = build_master_system_prompt;
          role_prompt = build_role_specific_prompt p
      in case build_rag_context_prompt self1 question p of
           Inl err \<Rightarrow> Inl err
         | Inr ((context, retrieval_result), self2) \<Rightarrow>
             (let final_prompt =
                    master_prompt @ newline @ newline @ role_prompt @ newline @ newline
                    @ context @ newline @ newline @ ''User Question:'' @ newline @ question
              in case getattr_RetrievalResult retrieval_result ''total_docs_found'' of
                   Inl err \<Rightarrow> Inl err
                 | Inr documents_retrieved \<Rightarrow>
                     (case getattr_RetrievalResult retrieval_result ''retrieval_method'' of
                        Inl err \<Rightarrow> Inl err
                      | Inr retrieval_method \<Rightarrow>
                          Inr (\<lparr>master_system_prompt = master_prompt,
                                 role_specific_prompt = role_prompt,
                                 rag_context = context,
                                 user_question = question,
                                 prompt_metadata =
                                   [(''persona'', AStr (Persona_value p)),
                                    (''question'', AStr question),
                                    (''documents_retrieved'', documents_retrieved),
                                    (''retrieval_method'', retrieval_method),
                                    (''prompt_length'', AInt (int (length final_prompt))),
                                    (''retrieved_doc_ids'',
                                     AStrs (map doc_id (documents retrieval_result)))]\<rparr>,
                               self2))))"

section \<open>The document store keeps one document per id\<close>

lemma map_fst_dict_set:
  "set (map fst (dict_set kvs k v)) = insert k (set (map fst kvs))"
  by (induction kvs) (force+)

lemma distinct_dict_set:
  "distinct (map fst kvs) \<Longrightarrow> distinct (map fst (dict_set kvs k v))"
proof (induction kvs)
  case Nil
  then show ?case by simp
next
  case (Cons a kvs)
  obtain k' v' where a: "a = (k', v')" by (cases a)
  show ?case
  proof (cases "k' = k")
    case True
    with Cons.prems a show ?thesis by simp
  next
    case False
    have "k' \<notin> set (map fst (dict_set kvs k v))"
      using Cons.prems a False by (simp only: map_fst_dict_set) auto
    with Cons a False show ?thesis by simp
  qed
qed

lemma map_of_dict_set:
  "map_of (dict_set kvs k v) = (map_of kvs)(k \<mapsto> v)"
  by (induction kvs) (auto simp: fun_eq_iff)

lemma length_dict_set:
  "length (dict_set kvs k v) =
     (if k \<in> set (map fst kvs) then length kvs else Suc (length kvs))"
  by (induction kvs) (force+)

lemma list_all_dict_set:
  "list_all P kvs \<Longrightarrow> P (k, v) \<Longrightarrow> list_all P (dict_set kvs k v)"
  by (induction kvs) auto

lemma store_inv_add_document:
  "store_inv store \<Longrightarrow> store_inv (add_document store d)"
  by (simp add: store_inv_def add_document_def distinct_dict_set list_all_dict_set)

lemma store_inv_ids:
  "store_inv store \<Longrightarrow> map doc_id (get_all_documents store) = map fst store"
  by (induction store) (auto simp: store_inv_def get_all_documents_def)

lemma DocumentStore_init_eq:
  "DocumentStore_init =
     [(''policy_001'', policy_001), (''tech_001'', tech_001), (''business_001'', business_001),
      (''trends_001'', trends_001), (''training_001'', training_001),
      (''general_001'', general_001), (''challenges_001'', challenges_001)]"
  by (simp add: DocumentStore_init_def initialize_sample_documents_def sample_docs_def
      policy_001_def tech_001_def business_001_def trends_001_def training_001_def
      general_001_def challenges_001_def mk_doc_def)

lemma store_inv_init: "store_inv DocumentStore_init"
  by (simp add: DocumentStore_init_eq store_inv_def)
    (simp add: policy_001_def tech_001_def business_001_def trends_001_def training_001_def
      general_001_def challenges_001_def mk_doc_def)

section \<open>The scorer returns a score between 0 and 1\<close>

lemma keyword_bonus_fold_nonneg:
  "0 \<le> b \<Longrightarrow>
   0 \<le> fold (\<lambda>keyword b. if str_in (lower keyword) doc_lower then b + 1 / 10 else b) ks (b::rat)"
  by (induction ks arbitrary: b) auto

lemma keyword_bonus_nonneg: "0 \<le> keyword_bonus ks doc_lower"
  by (simp add: keyword_bonus_def keyword_bonus_fold_nonneg)

lemma topic_bonus_nonneg: "0 \<le> topic_bonus ql dl"
  by (simp add: topic_bonus_def Let_def)

lemma type_bonus_nonneg: "0 \<le> type_bonus p d"
  by (simp add: type_bonus_def)

text \<open>
  The scorer has two outcomes: one of its early returns of 0.0, or the clamped weighted
  sum over a coverage and a density that are not negative. It never raises.
\<close>

lemma calculate_relevance_cases:
  "calculate_relevance d q p = Inr 0 \<or>
   (\<exists>c m. 0 \<le> c \<and> 0 \<le> m \<and> calculate_relevance d q p =
      Inr (min (c * (4 / 10) + m * (2 / 10) + topic_bonus (lower q) (lower (content d))
           + keyword_bonus (persona_keywords p) (lower (content d)) + type_bonus p d) 1))"
proof -
  let ?terms = "expanded_terms (query_terms (lower q))"
  let ?tm = "case count_matches (lower (content d)) ?terms of (e, pm) \<Rightarrow> e + pm"
  let ?w = "length (split (lower (content d)))"
  show ?thesis
  proof (cases "?terms = []")
    case True
    then show ?thesis by (simp add: calculate_relevance_def)
  next
    case nonempty: False
    let ?c = "rat_of_nat ?tm / rat_of_nat (length ?terms * 2)"
    have c0: "0 \<le> ?c" by simp
    show ?thesis
    proof (cases "?c < 3 / 10 \<or> ?w = 0")
      case True
      then show ?thesis
        using nonempty by (auto simp add: calculate_relevance_def Let_def py_div_def)
    next
      case False
      then have w: "?w \<noteq> 0" and c: "\<not> ?c < 3 / 10" by auto
      let ?m = "rat_of_nat ?tm / rat_of_nat ?w"
      have m0: "0 \<le> ?m" by simp
      show ?thesis
      proof (cases "?m < 1 / 100")
        case True
        then show ?thesis
          using nonempty w c by (simp add: calculate_relevance_def Let_def py_div_def)
      next
        case False
        have "calculate_relevance d q p =
          Inr (min (?c * (4 / 10) + ?m * (2 / 10) + topic_bonus (lower q) (lower (content d))
           + keyword_bonus (persona_keywords p) (lower (content d)) + type_bonus p d) 1)"
          using nonempty w c False by (simp add: calculate_relevance_def Let_def py_div_def)
        with c0 m0 show ?thesis by blast
      qed
    qed
  qed
qed

lemma calculate_relevance_total:
  "\<exists>r. calculate_relevance d q p = Inr r \<and> 0 \<le> r \<and> r \<le> 1"
proof -
  from calculate_relevance_cases [of d q p] show ?thesis
  proof
    assume "calculate_relevance d q p = Inr 0"
    then show ?thesis by simp
  next
    assume "\<exists>c m. 0 \<le> c \<and> 0 \<le> m \<and> calculate_relevance d q p =
      Inr (min (c * (4 / 10) + m * (2 / 10) + topic_bonus (lower q) (lower (content d))
           + keyword_bonus (persona_keywords p) (lower (content d)) + type_bonus p d) 1)"
    then obtain c m where c: "0 \<le> c" and m: "0 \<le> m"
      and eq: "calculate_relevance d q p =
      Inr (min (c * (4 / 10) + m * (2 / 10) + topic_bonus (lower q) (lower (content d))
           + keyword_bonus (persona_keywords p) (lower (content d)) + type_bonus p d) 1)"
      by blast
    have "0 \<le> c * (4 / 10) + m * (2 / 10) + topic_bonus (lower q) (lower (content d))
           + keyword_bonus (persona_keywords p) (lower (content d)) + type_bonus p d"
      using c m topic_bonus_nonneg [of "lower q" "lower (content d)"]
        keyword_bonus_nonneg [of "persona_keywords p" "lower (content d)"]
        type_bonus_nonneg [of p d]
      by simp
    with eq show ?thesis by simp
  qed
qed

text \<open>
  Claim C5. For every document, every query string and every persona string,
  \<^verbatim>\<open>calculate_relevance\<close> returns a score (it does not raise), and that score lies in
  the closed interval from 0.0 to 1.0.
\<close>

theorem calculate_relevance_in_unit_interval:
  "\<exists>r. calculate_relevance d q p = Inr r \<and> 0 \<le> r \<and> r \<le> 1"
  by (rule calculate_relevance_total)

section \<open>The retriever is total and keeps the store's keys\<close>

lemma score_all_shape:
  "\<exists>s'. score_all q p store = Inr s' \<and> map fst s' = map fst store
     \<and> map (\<lambda>kd. doc_id (snd kd)) s' = map (\<lambda>kd. doc_id (snd kd)) store"
proof (induction store)
  case Nil
  then show ?case by simp
next
  case (Cons a store)
  obtain k doc where a: "a = (k, doc)" by (cases a)
  from calculate_relevance_total [of doc q p]
  obtain r where r: "calculate_relevance doc q p = Inr r" by blast
  from Cons.IH obtain s' where s': "score_all q p store = Inr s'"
    and "map fst s' = map fst store"
    and "map (\<lambda>kd. doc_id (snd kd)) s' = map (\<lambda>kd. doc_id (snd kd)) store"
    by blast
  then show ?case using a r by simp
qed

lemma avg_relevance_total: "\<exists>a. avg_relevance ds = Inr a"
  by (cases ds) (simp_all add: avg_relevance_def py_div_def)

lemma retrieve_documents_store:
  "score_all q p store = Inr s' \<Longrightarrow> \<exists>r. retrieve_documents store q p k = Inr (r, s')"
proof -
  assume s': "score_all q p store = Inr s'"
  let ?scored = "filter (\<lambda>doc. relevance_score doc > 1 / 10) (get_all_documents s')"
  let ?filtered = "filter_documents (slice_to (sort_by_relevance ?scored) k) p"
  from avg_relevance_total [of ?filtered] obtain a where "avg_relevance ?filtered = Inr a" ..
  with s' show ?thesis
    by (cases "?scored = []") (simp_all add: retrieve_documents_def Let_def)
qed

lemma retrieve_documents_total:
  "\<exists>r s'. retrieve_documents store q p k = Inr (r, s')"
  using score_all_shape [of q p store] retrieve_documents_store [of q p store _ k] by blast

lemma store_inv_retrieve:
  assumes "store_inv store"
  shows "\<exists>r s'. retrieve_documents store q p k = Inr (r, s') \<and> store_inv s'"
proof -
  from score_all_shape [of q p store] obtain s' where s': "score_all q p store = Inr s'"
    and keys: "map fst s' = map fst store"
    and ids: "map (\<lambda>kd. doc_id (snd kd)) s' = map (\<lambda>kd. doc_id (snd kd)) store"
    by blast
  have "list_all (\<lambda>kd. doc_id (snd kd) = fst kd) store"
    using assms by (simp add: store_inv_def list_all_iff case_prod_unfold)
  then have "map (\<lambda>kd. doc_id (snd kd)) store = map fst store"
    by (simp add: list_all_iff)
  with keys ids have "map (\<lambda>kd. doc_id (snd kd)) s' = map fst s'" by simp
  then have "list_all (\<lambda>kd. doc_id (snd kd) = fst kd) s'"
    by (induction s') auto
  then have "store_inv s'"
    using assms keys by (simp add: store_inv_def list_all_iff case_prod_unfold)
  with retrieve_documents_store [OF s', of k] show ?thesis by blast
qed

text \<open>
  Claim C10. In a store that holds one document per id, \<^verbatim>\<open>add_document\<close> with a
  document whose id is already stored replaces the stored document: afterwards
  \<^verbatim>\<open>get_document\<close> returns the new document for that id, every other id still maps
  to the document it had, \<^verbatim>\<open>get_all_documents\<close> has exactly one document per id and
  no more documents than before when the id was present. The invariant holds for the
  initial store and is kept by \<^verbatim>\<open>add_document\<close> and by \<^verbatim>\<open>retrieve_documents\<close>,
  the only operations that write to the store.
\<close>

theorem add_document_replaces_same_id:
  assumes "store_inv store"
  shows "get_document (add_document store d) (doc_id d) = Some d
    \<and> (\<forall>i. i \<noteq> doc_id d \<longrightarrow> get_document (add_document store d) i = get_document store i)
    \<and> distinct (map doc_id (get_all_documents (add_document store d)))
    \<and> set (map doc_id (get_all_documents (add_document store d)))
        = insert (doc_id d) (set (map doc_id (get_all_documents store)))
    \<and> length (get_all_documents (add_document store d))
        = (if doc_id d \<in> set (map doc_id (get_all_documents store))
           then length (get_all_documents store) else Suc (length (get_all_documents store)))
    \<and> store_inv (add_document store d)
    \<and> store_inv DocumentStore_init
    \<and> (\<exists>r s'. retrieve_documents store q p k = Inr (r, s') \<and> store_inv s')"
proof -
  have inv': "store_inv (add_document store d)"
    using assms by (rule store_inv_add_document)
  have ids: "map doc_id (get_all_documents store) = map fst store"
    using assms by (rule store_inv_ids)
  have ids': "map doc_id (get_all_documents (add_document store d))
      = map fst (dict_set store (doc_id d) d)"
    using store_inv_ids [OF inv'] by (simp add: add_document_def)
  have g1: "get_document (add_document store d) (doc_id d) = Some d"
    by (simp add: get_document_def add_document_def map_of_dict_set)
  have g2: "\<forall>i. i \<noteq> doc_id d \<longrightarrow> get_document (add_document store d) i = get_document store i"
    by (simp add: get_document_def add_document_def map_of_dict_set)
  have g3: "distinct (map doc_id (get_all_documents (add_document store d)))"
    using assms unfolding ids' by (simp add: store_inv_def distinct_dict_set)
  have g4: "set (map doc_id (get_all_documents (add_document store d)))
        = insert (doc_id d) (set (map doc_id (get_all_documents store)))"
    unfolding ids' ids by (rule map_fst_dict_set)
  have g5: "length (get_all_documents (add_document store d))
        = (if doc_id d \<in> set (map doc_id (get_all_documents store))
           then length (get_all_documents store) else Suc (length (get_all_documents store)))"
    unfolding ids by (simp only: get_all_documents_def add_document_def length_map length_dict_set)
  from g1 g2 g3 g4 g5 inv' store_inv_init store_inv_retrieve [OF assms, of q p k]
  show ?thesis by blast
qed

theorem add_document_replaces_same_id_witness:
  "store_inv DocumentStore_init
   \<and> get_document
        (add_document DocumentStore_init (mk_doc ''policy_001'' ''Updated policy.'' POLICY []))
        ''policy_001''
      = Some (mk_doc ''policy_001'' ''Updated policy.'' POLICY [])
   \<and> length (get_all_documents
        (add_document DocumentStore_init (mk_doc ''policy_001'' ''Updated policy.'' POLICY [])))
      = 7"
proof -
  have id: "doc_id (mk_doc ''policy_001'' ''Updated policy.'' POLICY []) = ''policy_001''"
    by (simp add: mk_doc_def)
  have len: "length (get_all_documents DocumentStore_init) = 7"
    by (simp add: DocumentStore_init_eq get_all_documents_def)
  have mem: "''policy_001'' \<in> set (map doc_id (get_all_documents DocumentStore_init))"
    by (simp add: DocumentStore_init_eq get_all_documents_def policy_001_def mk_doc_def)
  from add_document_replaces_same_id [OF store_inv_init,
      of "mk_doc ''policy_001'' ''Updated policy.'' POLICY []"]
  show ?thesis
    unfolding id using len mem store_inv_init by simp
qed

section \<open>Documents without words\<close>

text \<open>
  Claim C9. For every query and persona, a document whose content has no words (the empty
  string in particular) scores exactly 0.0: the scorer returns before the division by the
  document's word count, so no division by zero is reached.
\<close>

theorem zero_words_score_zero:
  "length (split (lower (content d))) = 0 \<Longrightarrow> calculate_relevance d q p = Inr 0"
  by (simp add: calculate_relevance_def Let_def py_div_def)

theorem zero_words_score_zero_witness:
  "length (split (lower (content (mk_doc ''empty_001'' [] GENERAL [])))) = 0
   \<and> calculate_relevance (mk_doc ''empty_001'' [] GENERAL [])
        ''What is the remote work policy?'' ''Executive'' = Inr 0"
proof -
  have h: "length (split (lower (content (mk_doc ''empty_001'' [] GENERAL [])))) = 0"
    by (simp add: mk_doc_def lower_def split_def)
  from h zero_words_score_zero [OF h] show ?thesis by simp
qed

section \<open>Substrings\<close>

lemma startswith_iff: "startswith s p \<longleftrightarrow> (\<exists>post. s = p @ post)"
  by (induction s p rule: startswith.induct) auto

lemma str_in_iff: "str_in sub s \<longleftrightarrow> (\<exists>pre post. s = pre @ sub @ post)"
proof (induction s)
  case Nil
  then show ?case by simp
next
  case (Cons c cs)
  show ?case
  proof
    assume "str_in sub (c # cs)"
    then consider "startswith (c # cs) sub" | "str_in sub cs" by auto
    then show "\<exists>pre post. c # cs = pre @ sub @ post"
    proof cases
      case 1
      then obtain post where "c # cs = sub @ post" by (auto simp: startswith_iff)
      then have "c # cs = [] @ sub @ post" by simp
      then show ?thesis by blast
    next
      case 2
      with Cons.IH obtain pre post where "cs = pre @ sub @ post" by blast
      then have "c # cs = (c # pre) @ sub @ post" by simp
      then show ?thesis by blast
    qed
  next
    assume "\<exists>pre post. c # cs = pre @ sub @ post"
    then obtain pre post where eq: "c # cs = pre @ sub @ post" by blast
    show "str_in sub (c # cs)"
    proof (cases pre)
      case Nil
      with eq have "startswith (c # cs) sub" by (auto simp: startswith_iff)
      then show ?thesis by simp
    next
      case (Cons a pre')
      with eq have "cs = pre' @ sub @ post" by simp
      with Cons.IH have "str_in sub cs" by blast
      then show ?thesis by simp
    qed
  qed
qed

section \<open>Persona filter\<close>

lemma filter_documents_subset:
  "persona_filters p = Some f \<Longrightarrow> d \<in> set (filter_documents docs p) \<Longrightarrow>
     d \<in> set docs \<and> passes_filter f d"
proof -
  assume f: "persona_filters p = Some f" and d: "d \<in> set (filter_documents docs p)"
  from d f have "d \<in> set (take (max_documents f) (sort_by_relevance (filter (passes_filter f) docs)))"
    by (simp add: filter_documents_def)
  then have "d \<in> set (sort_by_relevance (filter (passes_filter f) docs))"
    by (rule in_set_takeD)
  then show ?thesis by (simp add: sort_by_relevance_def)
qed

text \<open>
  Claim C7. For a known persona, a document whose lower-cased content contains the
  lower-cased form of one of the persona's exclude-keywords is never in the output of
  \<^verbatim>\<open>filter_documents\<close>, whatever its relevance score and whatever the input list.
\<close>

theorem excluded_documents_never_returned:
  assumes "persona_filters p = Some f"
    and "keyword \<in> set (exclude_keywords f)"
    and "lower (content d) = pre @ lower keyword @ post"
  shows "d \<notin> set (filter_documents docs p)"
proof
  assume "d \<in> set (filter_documents docs p)"
  with assms(1) have pass: "passes_filter f d" by (simp add: filter_documents_subset)
  have "str_in (lower keyword) (lower (content d))"
    using assms(3) by (auto simp: str_in_iff)
  with assms(2) have "list_ex (\<lambda>keyword. str_in (lower keyword) (lower (content d))) (exclude_keywords f)"
    by (auto simp: list_ex_iff)
  with pass show False by (simp add: passes_filter_def split: if_splits)
qed

lemma persona_filters_Executive:
  "persona_filters ''Executive'' = Some
       \<lparr>preferred_types = [BUSINESS, POLICY],
        content_keywords = [''revenue'', ''cost'', ''roi'', ''strategy'', ''risk'', ''impact'',
          ''challenges'', ''industry''],
        exclude_keywords = [''implementation'', ''code'', ''technical'', ''debug''],
        max_documents = 3, min_relevance = 3 / 10\<rparr>"
  by (simp add: persona_filters_def)

theorem excluded_documents_never_returned_witness:
  "persona_filters ''Executive'' = Some
       \<lparr>preferred_types = [BUSINESS, POLICY],
        content_keywords = [''revenue'', ''cost'', ''roi'', ''strategy'', ''risk'', ''impact'',
          ''challenges'', ''industry''],
        exclude_keywords = [''implementation'', ''code'', ''technical'', ''debug''],
        max_documents = 3, min_relevance = 3 / 10\<rparr>
   \<and> lower (content review_doc) = ''source '' @ lower ''code'' @ '' review''
   \<and> review_doc \<notin> set (filter_documents [review_doc] ''Executive'')"
proof -
  have l: "lower (content review_doc) = ''source '' @ lower ''code'' @ '' review''"
    unfolding review_doc_def by code_simp
  from excluded_documents_never_returned [OF persona_filters_Executive _ l, of "[review_doc]"]
  have "review_doc \<notin> set (filter_documents [review_doc] ''Executive'')" by simp
  with l persona_filters_Executive show ?thesis by simp
qed

lemma known_persona_bounds:
  "persona_filters p = Some f \<Longrightarrow> 3 \<le> max_documents f \<and> min_relevance f \<le> 4 / 10"
  by (auto simp: persona_filters_def split: if_splits)

text \<open>
  Claim C6, as the code has it. For a known persona and a document whose type is not
  among the persona's preferred types: \<^verbatim>\<open>filter_documents\<close> rejects the document when
  its relevance score is below 0.7, and a score of 0.7 or more (0.7 itself included, the
  bound is not strict) lets it through to the other rules. Such a document passes the
  three rules exactly when its score is at least 0.7 and its content has no exclude-keyword
  (the persona's minimum relevance is at most 0.4); it is then the output for the input
  list holding it alone, and it is in the output for any input list that holds it and
  whose surviving documents fit under the persona's cap.
\<close>

theorem non_preferred_type_needs_score_07:
  assumes "persona_filters p = Some f"
    and "doc_type d \<notin> set (preferred_types f)"
  shows "(relevance_score d < 7 / 10 \<longrightarrow> d \<notin> set (filter_documents docs p))
    \<and> (passes_filter f d
         = (7 / 10 \<le> relevance_score d
            \<and> \<not> list_ex (\<lambda>keyword. str_in (lower keyword) (lower (content d)))
                  (exclude_keywords f)))
    \<and> (7 / 10 \<le> relevance_score d
        \<and> \<not> list_ex (\<lambda>keyword. str_in (lower keyword) (lower (content d)))
              (exclude_keywords f)
        \<longrightarrow> filter_documents [d] p = [d]
            \<and> (d \<in> set docs \<and> length (filter (passes_filter f) docs) \<le> max_documents f
                 \<longrightarrow> d \<in> set (filter_documents docs p)))"
proof -
  from known_persona_bounds [OF assms(1)]
  have cap: "3 \<le> max_documents f" and low: "min_relevance f \<le> 4 / 10" by simp_all
  have pass: "passes_filter f d
         = (7 / 10 \<le> relevance_score d
            \<and> \<not> list_ex (\<lambda>keyword. str_in (lower keyword) (lower (content d)))
                  (exclude_keywords f))"
    using assms(2) low by (auto simp: passes_filter_def)
  have reject: "relevance_score d < 7 / 10 \<longrightarrow> d \<notin> set (filter_documents docs p)"
  proof
    assume small: "relevance_score d < 7 / 10"
    show "d \<notin> set (filter_documents docs p)"
    proof
      assume "d \<in> set (filter_documents docs p)"
      with assms(1) have "passes_filter f d" by (simp add: filter_documents_subset)
      with pass small show False by simp
    qed
  qed
  have admit: "filter_documents [d] p = [d]
      \<and> (d \<in> set docs \<and> length (filter (passes_filter f) docs) \<le> max_documents f
           \<longrightarrow> d \<in> set (filter_documents docs p))"
    if ok: "passes_filter f d"
  proof
    have "take (max_documents f) [d] = [d]" using cap by (cases "max_documents f") simp_all
    with ok assms(1) show "filter_documents [d] p = [d]"
      by (simp add: filter_documents_def sort_by_relevance_def)
  next
    show "d \<in> set docs \<and> length (filter (passes_filter f) docs) \<le> max_documents f
           \<longrightarrow> d \<in> set (filter_documents docs p)"
    proof
      assume h: "d \<in> set docs \<and> length (filter (passes_filter f) docs) \<le> max_documents f"
      then have "length (sort_by_relevance (filter (passes_filter f) docs)) \<le> max_documents f"
        by (simp add: sort_by_relevance_def)
      then have "take (max_documents f) (sort_by_relevance (filter (passes_filter f) docs))
          = sort_by_relevance (filter (passes_filter f) docs)"
        by simp
      with assms(1) have "set (filter_documents docs p) = set (filter (passes_filter f) docs)"
        by (simp add: filter_documents_def sort_by_relevance_def)
      with h ok show "d \<in> set (filter_documents docs p)" by simp
    qed
  qed
  from reject pass admit show ?thesis by blast
qed

text \<open>
  A technical document scored exactly 0.7 is returned for the Executive persona, whose
  preferred types are business and policy, although 0.7 is not greater than 0.7.
\<close>

theorem score_exactly_07_passes_counterexample:
  "doc_type borderline_doc \<notin> set (persona_types ''Executive'')
   \<and> \<not> relevance_score borderline_doc > 7 / 10
   \<and> filter_documents [borderline_doc] ''Executive'' = [borderline_doc]"
  by code_simp

theorem non_preferred_type_needs_score_07_witness:
  "persona_filters ''Executive'' = Some
       \<lparr>preferred_types = [BUSINESS, POLICY],
        content_keywords = [''revenue'', ''cost'', ''roi'', ''strategy'', ''risk'', ''impact'',
          ''challenges'', ''industry''],
        exclude_keywords = [''implementation'', ''code'', ''technical'', ''debug''],
        max_documents = 3, min_relevance = 3 / 10\<rparr>
   \<and> doc_type weak_doc \<notin> set [BUSINESS, POLICY]
   \<and> relevance_score weak_doc < 7 / 10
   \<and> weak_doc \<notin> set (filter_documents [weak_doc, strong_doc] ''Executive'')
   \<and> doc_type strong_doc \<notin> set [BUSINESS, POLICY]
   \<and> 7 / 10 \<le> relevance_score strong_doc
   \<and> \<not> list_ex (\<lambda>keyword. str_in (lower keyword) (lower (content strong_doc)))
         [''implementation'', ''code'', ''technical'', ''debug'']
   \<and> filter_documents [strong_doc] ''Executive'' = [strong_doc]
   \<and> strong_doc \<in> set [weak_doc, strong_doc]
   \<and> length (filter (passes_filter
         \<lparr>preferred_types = [BUSINESS, POLICY],
          content_keywords = [''revenue'', ''cost'', ''roi'', ''strategy'', ''risk'', ''impact'',
            ''challenges'', ''industry''],
          exclude_keywords = [''implementation'', ''code'', ''technical'', ''debug''],
          max_documents = 3, min_relevance = 3 / 10\<rparr>) [weak_doc, strong_doc]) \<le> 3
   \<and> strong_doc \<in> set (filter_documents [weak_doc, strong_doc] ''Executive'')"
proof -
  have tw: "doc_type weak_doc \<notin> set [BUSINESS, POLICY]"
    and ts: "doc_type strong_doc \<notin> set [BUSINESS, POLICY]"
    by (simp_all add: weak_doc_def strong_doc_def)
  have sw: "relevance_score weak_doc < 7 / 10" and ss: "7 / 10 \<le> relevance_score strong_doc"
    by (simp_all add: weak_doc_def strong_doc_def)
  have clean: "\<not> list_ex (\<lambda>keyword. str_in (lower keyword) (lower (content strong_doc)))
         [''implementation'', ''code'', ''technical'', ''debug'']"
    unfolding strong_doc_def by code_simp
  have len: "length (filter (passes_filter
         \<lparr>preferred_types = [BUSINESS, POLICY],
          content_keywords = [''revenue'', ''cost'', ''roi'', ''strategy'', ''risk'', ''impact'',
            ''challenges'', ''industry''],
          exclude_keywords = [''implementation'', ''code'', ''technical'', ''debug''],
          max_documents = 3, min_relevance = 3 / 10\<rparr>) [weak_doc, strong_doc]) \<le> 3"
    by (rule order_trans [OF length_filter_le]) simp
  have mem: "strong_doc \<in> set [weak_doc, strong_doc]" by simp
  from non_preferred_type_needs_score_07 [OF persona_filters_Executive, of weak_doc
      "[weak_doc, strong_doc]"] tw sw
  have w: "weak_doc \<notin> set (filter_documents [weak_doc, strong_doc] ''Executive'')" by simp
  from non_preferred_type_needs_score_07 [OF persona_filters_Executive, of strong_doc
      "[weak_doc, strong_doc]"] ts ss clean len mem
  have s: "filter_documents [strong_doc] ''Executive'' = [strong_doc]
      \<and> strong_doc \<in> set (filter_documents [weak_doc, strong_doc] ''Executive'')"
    by simp
  from persona_filters_Executive tw sw w ts ss clean s mem len show ?thesis
    by (simp only: simp_thms)
qed

section \<open>Evaluating the scorer on concrete documents\<close>

text \<open>
  Rewrite rules that let the simplifier run the string primitives on literals in time
  linear in the length of the text.
\<close>

lemma lower_char_Char:
  "lower_char (Char b0 b1 b2 b3 b4 b5 b6 b7) =
     (if b6 \<and> \<not> b5
          \<and> ((\<not> b7 \<and> (b0 \<or> b1 \<or> b2 \<or> b3 \<or> b4) \<and> \<not> (b4 \<and> b3 \<and> (b2 \<or> (b1 \<and> b0))))
               \<or> (b7 \<and> \<not> (b0 \<and> b1 \<and> b2 \<and> b4)))
      then Char b0 b1 b2 b3 b4 True b6 b7 else Char b0 b1 b2 b3 b4 b5 b6 b7)"
  by (cases b0; cases b1; cases b2; cases b3; cases b4; cases b5; cases b6; cases b7;
      simp add: lower_char_def; code_simp)

lemma is_space_Char:
  "is_space (Char b0 b1 b2 b3 b4 b5 b6 b7) =
     ((\<not> b7 \<and> \<not> b6 \<and>
        ((\<not> b5 \<and> \<not> b4 \<and> b3 \<and> (\<not> b2 \<and> (b0 \<or> b1) \<or> b2 \<and> \<not> b1))
         \<or> (\<not> b5 \<and> b4 \<and> b3 \<and> b2)
         \<or> (b5 \<and> \<not> b4 \<and> \<not> b3 \<and> \<not> b2 \<and> \<not> b1 \<and> \<not> b0)))
      \<or> (b7 \<and> \<not> b6 \<and> \<not> b4 \<and> \<not> b3 \<and> \<not> b1
          \<and> ((\<not> b5 \<and> b2 \<and> b0) \<or> (b5 \<and> \<not> b2 \<and> \<not> b0))))"
  by (cases b0; cases b1; cases b2; cases b3; cases b4; cases b5; cases b6; cases b7;
      simp add: is_space_def)

lemma startswith_same: "startswith (c # cs) (c # ps) = startswith cs ps"
  by simp

lemma startswith_diff: "c \<noteq> p \<Longrightarrow> startswith (c # cs) (p # ps) = False"
  by simp

lemma split_acc_space_Nil: "is_space c \<Longrightarrow> split_acc [] (c # cs) = split_acc [] cs"
  by simp

lemma split_acc_space_Cons:
  "is_space c \<Longrightarrow> split_acc (a # cur) (c # cs) = rev (a # cur) # split_acc [] cs"
  by simp

lemma split_acc_char: "\<not> is_space c \<Longrightarrow> split_acc cur (c # cs) = split_acc (c # cur) cs"
  by simp

lemmas doc_defs = policy_001_def tech_001_def business_001_def trends_001_def
  training_001_def general_001_def challenges_001_def mk_doc_def

lemmas str_eval = lower_def lower_char_Char is_space_Char startswith_same startswith_diff
  split_acc_space_Nil split_acc_space_Cons split_acc_char split_def

lemmas match_eval = count_matches_def match_step_def is_exact_def endswith_def

lemmas terms_eval = expanded_terms_def query_terms_def strip_def variation_def endswith_def
  common_words_def

text \<open>The two ways the scorer ends once the candidate terms and the matches are known.\<close>

lemma calculate_relevance_below_coverage:
  assumes ts: "expanded_terms (query_terms (lower q)) = ts" and ne: "ts \<noteq> []"
    and cm: "count_matches (lower (content d)) ts = (e, pm)"
    and cov: "rat_of_nat (e + pm) / rat_of_nat (length ts * 2) = cov"
    and low: "cov < 3 / 10"
  shows "calculate_relevance d q p = Inr 0"
proof -
  have tm: "(case count_matches (lower (content d)) ts of (e, pm) \<Rightarrow> e + pm) = e + pm"
    by (simp add: cm)
  have "rat_of_nat (length ts * 2) \<noteq> 0" using ne by simp
  then have pd: "py_div (rat_of_nat (e + pm)) (rat_of_nat (length ts * 2)) = Inr cov"
    unfolding py_div_def using cov by (simp only: if_False)
  show ?thesis
    unfolding calculate_relevance_def Let_def ts tm pd using ne low by simp
qed

lemma calculate_relevance_scored:
  assumes ts: "expanded_terms (query_terms (lower q)) = ts" and ne: "ts \<noteq> []"
    and cm: "count_matches (lower (content d)) ts = (e, pm)"
    and cov: "rat_of_nat (e + pm) / rat_of_nat (length ts * 2) = cov"
    and high: "\<not> cov < 3 / 10"
    and words: "length (split (lower (content d))) = w" and w: "w \<noteq> 0"
    and dens: "rat_of_nat (e + pm) / rat_of_nat w = dens"
    and dense: "\<not> dens < 1 / 100"
  shows "calculate_relevance d q p =
     Inr (min (cov * (4 / 10) + dens * (2 / 10) + topic_bonus (lower q) (lower (content d))
               + keyword_bonus (persona_keywords p) (lower (content d)) + type_bonus p d) 1)"
proof -
  have tm: "(case count_matches (lower (content d)) ts of (e, pm) \<Rightarrow> e + pm) = e + pm"
    by (simp add: cm)
  have "rat_of_nat (length ts * 2) \<noteq> 0" using ne by simp
  then have pd: "py_div (rat_of_nat (e + pm)) (rat_of_nat (length ts * 2)) = Inr cov"
    unfolding py_div_def using cov by (simp only: if_False)
  have "rat_of_nat w \<noteq> 0" using w by simp
  then have pd2: "py_div (rat_of_nat (e + pm)) (rat_of_nat w) = Inr dens"
    unfolding py_div_def using dens by (simp only: if_False)
  show ?thesis
    unfolding calculate_relevance_def Let_def ts tm pd words pd2 using ne high w dense by simp
qed

lemma calculate_relevance_below_density:
  assumes ts: "expanded_terms (query_terms (lower q)) = ts" and ne: "ts \<noteq> []"
    and cm: "count_matches (lower (content d)) ts = (e, pm)"
    and cov: "rat_of_nat (e + pm) / rat_of_nat (length ts * 2) = cov"
    and high: "\<not> cov < 3 / 10"
    and words: "length (split (lower (content d))) = w" and w: "w \<noteq> 0"
    and dens: "rat_of_nat (e + pm) / rat_of_nat w = dens"
    and sparse: "dens < 1 / 100"
  shows "calculate_relevance d q p = Inr 0"
proof -
  have tm: "(case count_matches (lower (content d)) ts of (e, pm) \<Rightarrow> e + pm) = e + pm"
    by (simp add: cm)
  have "rat_of_nat (length ts * 2) \<noteq> 0" using ne by simp
  then have pd: "py_div (rat_of_nat (e + pm)) (rat_of_nat (length ts * 2)) = Inr cov"
    unfolding py_div_def using cov by (simp only: if_False)
  have "rat_of_nat w \<noteq> 0" using w by simp
  then have pd2: "py_div (rat_of_nat (e + pm)) (rat_of_nat w) = Inr dens"
    unfolding py_div_def using dens by (simp only: if_False)
  show ?thesis
    unfolding calculate_relevance_def Let_def ts tm pd words pd2 using ne high w sparse by simp
qed

lemma retrieve_documents_no_relevant:
  assumes "score_all q p store = Inr s'"
    and "filter (\<lambda>doc. relevance_score doc > 1 / 10) (get_all_documents s') = []"
  shows "retrieve_documents store q p k =
     Inr (\<lparr>documents = [], query = q, persona = p, total_retrieved = 0,
            retrieval_metadata = [(''reason'', VStr ''no_relevant_documents'')]\<rparr>, s')"
  using assms by (simp add: retrieve_documents_def)

section \<open>The sample corpus under the scenario queries\<close>

subsection \<open>The remote work query for the Executive persona\<close>

lemma remote_terms:
  "expanded_terms (query_terms (lower ''What is the remote work policy?''))
     = [''remote'', ''work'', ''policy'', ''remotes'', ''works'', ''policys'']"
  by (simp del: startswith.simps(3) split_acc.simps(2) add: terms_eval str_eval)

lemma remote_counts:
  "count_matches (lower (content policy_001))
     [''remote'', ''work'', ''policy'', ''remotes'', ''works'', ''policys''] = (6, 0)"
  "count_matches (lower (content tech_001))
     [''remote'', ''work'', ''policy'', ''remotes'', ''works'', ''policys''] = (0, 0)"
  "count_matches (lower (content business_001))
     [''remote'', ''work'', ''policy'', ''remotes'', ''works'', ''policys''] = (0, 0)"
  "count_matches (lower (content trends_001))
     [''remote'', ''work'', ''policy'', ''remotes'', ''works'', ''policys''] = (4, 0)"
  "count_matches (lower (content training_001))
     [''remote'', ''work'', ''policy'', ''remotes'', ''works'', ''policys''] = (0, 0)"
  "count_matches (lower (content general_001))
     [''remote'', ''work'', ''policy'', ''remotes'', ''works'', ''policys''] = (0, 0)"
  "count_matches (lower (content challenges_001))
     [''remote'', ''work'', ''policy'', ''remotes'', ''works'', ''policys''] = (0, 1)"
  by (simp_all del: startswith.simps(3) split_acc.simps(2) add: doc_defs str_eval match_eval)

lemma sample_words:
  "length (split (lower (content policy_001))) = 36"
  "length (split (lower (content business_001))) = 34"
  "length (split (lower (content trends_001))) = 57"
  by (simp_all del: startswith.simps(3) split_acc.simps(2) add: doc_defs str_eval)

lemma lower_keywords:
  "lower ''revenue'' = ''revenue''" "lower ''cost'' = ''cost''" "lower ''roi'' = ''roi''"
  "lower ''strategy'' = ''strategy''" "lower ''risk'' = ''risk''" "lower ''impact'' = ''impact''"
  "lower ''challenges'' = ''challenges''" "lower ''industry'' = ''industry''"
  "lower ''implementation'' = ''implementation''" "lower ''code'' = ''code''"
  "lower ''technical'' = ''technical''" "lower ''debug'' = ''debug''"
  "lower ''policy'' = ''policy''" "lower ''employee'' = ''employee''"
  "lower ''compliance'' = ''compliance''" "lower ''process'' = ''process''"
  "lower ''procedure'' = ''procedure''" "lower ''business'' = ''business''"
  "lower ''trends'' = ''trends''" "lower ''financial'' = ''financial''"
  by (simp_all add: lower_def lower_char_Char)

lemma remote_query_lower:
  "lower ''What is the remote work policy?'' = ''what is the remote work policy?''"
  by (simp add: lower_def lower_char_Char)

lemma remote_query_topics:
  "\<not> str_in ''authentication'' ''what is the remote work policy?''"
  "\<not> str_in ''system'' ''what is the remote work policy?''"
  "\<not> str_in ''jwt'' ''what is the remote work policy?''"
  "\<not> str_in ''token'' ''what is the remote work policy?''"
  "\<not> str_in ''cybersecurity'' ''what is the remote work policy?''"
  by (simp_all del: startswith.simps(3) add: str_eval)

lemma policy_001_words:
  "\<not> str_in ''revenue'' (lower (content policy_001))"
  "\<not> str_in ''cost'' (lower (content policy_001))"
  "\<not> str_in ''roi'' (lower (content policy_001))"
  "\<not> str_in ''strategy'' (lower (content policy_001))"
  "\<not> str_in ''risk'' (lower (content policy_001))"
  "\<not> str_in ''impact'' (lower (content policy_001))"
  "\<not> str_in ''challenges'' (lower (content policy_001))"
  "\<not> str_in ''industry'' (lower (content policy_001))"
  "\<not> str_in ''implementation'' (lower (content policy_001))"
  "\<not> str_in ''code'' (lower (content policy_001))"
  "\<not> str_in ''technical'' (lower (content policy_001))"
  "\<not> str_in ''debug'' (lower (content policy_001))"
  by (simp_all del: startswith.simps(3) add: doc_defs str_eval)

lemma trends_001_words:
  "\<not> str_in ''revenue'' (lower (content trends_001))"
  "\<not> str_in ''cost'' (lower (content trends_001))"
  "\<not> str_in ''roi'' (lower (content trends_001))"
  "\<not> str_in ''strategy'' (lower (content trends_001))"
  "str_in ''risk'' (lower (content trends_001))"
  "\<not> str_in ''impact'' (lower (content trends_001))"
  "\<not> str_in ''challenges'' (lower (content trends_001))"
  "\<not> str_in ''industry'' (lower (content trends_001))"
  "\<not> str_in ''implementation'' (lower (content trends_001))"
  "\<not> str_in ''code'' (lower (content trends_001))"
  "\<not> str_in ''technical'' (lower (content trends_001))"
  "\<not> str_in ''debug'' (lower (content trends_001))"
  by (simp_all del: startswith.simps(3) add: doc_defs str_eval)

lemma sample_types [simp]:
  "doc_type policy_001 = POLICY" "doc_type tech_001 = TECHNICAL"
  "doc_type business_001 = BUSINESS" "doc_type trends_001 = BUSINESS"
  "doc_type training_001 = TRAINING" "doc_type general_001 = DocumentType.GENERAL"
  "doc_type challenges_001 = BUSINESS"
  by (simp_all add: doc_defs)

lemma remote_bonus_Executive:
  "topic_bonus (lower ''What is the remote work policy?'') (lower (content policy_001)) = 0"
  "keyword_bonus (persona_keywords ''Executive'') (lower (content policy_001)) = 0"
  "type_bonus ''Executive'' policy_001 = 2 / 10"
  "topic_bonus (lower ''What is the remote work policy?'') (lower (content trends_001)) = 0"
  "keyword_bonus (persona_keywords ''Executive'') (lower (content trends_001)) = 1 / 10"
  "type_bonus ''Executive'' trends_001 = 2 / 10"
  unfolding remote_query_lower
  by (simp_all del: str_in.simps
      add: topic_bonus_def keyword_bonus_def type_bonus_def persona_keywords_def
        persona_types_def persona_filters_Executive lower_keywords remote_query_topics
        policy_001_words trends_001_words)

lemma remote_scores_Executive:
  "calculate_relevance policy_001 ''What is the remote work policy?'' ''Executive'' = Inr (13 / 30)"
  "calculate_relevance tech_001 ''What is the remote work policy?'' ''Executive'' = Inr 0"
  "calculate_relevance business_001 ''What is the remote work policy?'' ''Executive'' = Inr 0"
  "calculate_relevance trends_001 ''What is the remote work policy?'' ''Executive'' = Inr (17 / 38)"
  "calculate_relevance training_001 ''What is the remote work policy?'' ''Executive'' = Inr 0"
  "calculate_relevance general_001 ''What is the remote work policy?'' ''Executive'' = Inr 0"
  "calculate_relevance challenges_001 ''What is the remote work policy?'' ''Executive'' = Inr 0"
proof -
  show "calculate_relevance policy_001 ''What is the remote work policy?'' ''Executive'' = Inr (13 / 30)"
    using calculate_relevance_scored [OF remote_terms _ remote_counts(1) refl _ sample_words(1) _ refl,
        of "''Executive''"]
    by (simp add: remote_bonus_Executive)
  show "calculate_relevance trends_001 ''What is the remote work policy?'' ''Executive'' = Inr (17 / 38)"
    using calculate_relevance_scored [OF remote_terms _ remote_counts(4) refl _ sample_words(3) _ refl,
        of "''Executive''"]
    by (simp add: remote_bonus_Executive)
  show "calculate_relevance tech_001 ''What is the remote work policy?'' ''Executive'' = Inr 0"
    by (rule calculate_relevance_below_coverage [OF remote_terms _ remote_counts(2) refl]) simp_all
  show "calculate_relevance business_001 ''What is the remote work policy?'' ''Executive'' = Inr 0"
    by (rule calculate_relevance_below_coverage [OF remote_terms _ remote_counts(3) refl]) simp_all
  show "calculate_relevance training_001 ''What is the remote work policy?'' ''Executive'' = Inr 0"
    by (rule calculate_relevance_below_coverage [OF remote_terms _ remote_counts(5) refl]) simp_all
  show "calculate_relevance general_001 ''What is the remote work policy?'' ''Executive'' = Inr 0"
    by (rule calculate_relevance_below_coverage [OF remote_terms _ remote_counts(6) refl]) simp_all
  show "calculate_relevance challenges_001 ''What is the remote work policy?'' ''Executive'' = Inr 0"
    by (rule calculate_relevance_below_coverage [OF remote_terms _ remote_counts(7) refl]) simp_all
qed

lemma remote_score_all_Executive:
  "score_all ''What is the remote work policy?'' ''Executive'' DocumentStore_init =
     Inr [(''policy_001'', policy_001\<lparr>relevance_score := 13 / 30\<rparr>),
          (''tech_001'', tech_001\<lparr>relevance_score := 0\<rparr>),
          (''business_001'', business_001\<lparr>relevance_score := 0\<rparr>),
          (''trends_001'', trends_001\<lparr>relevance_score := 17 / 38\<rparr>),
          (''training_001'', training_001\<lparr>relevance_score := 0\<rparr>),
          (''general_001'', general_001\<lparr>relevance_score := 0\<rparr>),
          (''challenges_001'', challenges_001\<lparr>relevance_score := 0\<rparr>)]"
  by (simp add: DocumentStore_init_eq remote_scores_Executive)

lemma remote_pass_Executive:
  "passes_filter
     \<lparr>preferred_types = [BUSINESS, POLICY],
      content_keywords = [''revenue'', ''cost'', ''roi'', ''strategy'', ''risk'', ''impact'',
        ''challenges'', ''industry''],
      exclude_keywords = [''implementation'', ''code'', ''technical'', ''debug''],
      max_documents = 3, min_relevance = 3 / 10\<rparr> (policy_001\<lparr>relevance_score := 13 / 30\<rparr>)"
  "passes_filter
     \<lparr>preferred_types = [BUSINESS, POLICY],
      content_keywords = [''revenue'', ''cost'', ''roi'', ''strategy'', ''risk'', ''impact'',
        ''challenges'', ''industry''],
      exclude_keywords = [''implementation'', ''code'', ''technical'', ''debug''],
      max_documents = 3, min_relevance = 3 / 10\<rparr> (trends_001\<lparr>relevance_score := 17 / 38\<rparr>)"
  by (simp_all del: str_in.simps
      add: passes_filter_def lower_keywords policy_001_words trends_001_words)

lemma remote_retrieve_Executive:
  "retrieve_documents DocumentStore_init ''What is the remote work policy?'' ''Executive'' 10 =
     Inr (\<lparr>documents = [trends_001\<lparr>relevance_score := 17 / 38\<rparr>,
                          policy_001\<lparr>relevance_score := 13 / 30\<rparr>],
            query = ''What is the remote work policy?'', persona = ''Executive'',
            total_retrieved = 2,
            retrieval_metadata = [(''avg_relevance'', VNum (251 / 570))]\<rparr>,
          [(''policy_001'', policy_001\<lparr>relevance_score := 13 / 30\<rparr>),
          (''tech_001'', tech_001\<lparr>relevance_score := 0\<rparr>),
          (''business_001'', business_001\<lparr>relevance_score := 0\<rparr>),
          (''trends_001'', trends_001\<lparr>relevance_score := 17 / 38\<rparr>),
          (''training_001'', training_001\<lparr>relevance_score := 0\<rparr>),
          (''general_001'', general_001\<lparr>relevance_score := 0\<rparr>),
          (''challenges_001'', challenges_001\<lparr>relevance_score := 0\<rparr>)])"
  unfolding retrieve_documents_def remote_score_all_Executive
  by (simp add: get_all_documents_def sort_by_relevance_def slice_to_def filter_documents_def
      persona_filters_Executive remote_pass_Executive avg_relevance_def py_div_def)

subsection \<open>The authentication query\<close>

lemma auth_terms:
  "expanded_terms (query_terms (lower ''How does the authentication system work?''))
     = [''does'', ''authentication'', ''system'', ''work'', ''doe'', ''authentications'',
     ''systems'', ''works'']"
  by (simp del: startswith.simps(3) split_acc.simps(2) add: terms_eval str_eval)

lemma auth_counts:
  "count_matches (lower (content policy_001))
     [''does'', ''authentication'', ''system'', ''work'', ''doe'', ''authentications'',
     ''systems'', ''works''] = (2, 1)"
  "count_matches (lower (content tech_001))
     [''does'', ''authentication'', ''system'', ''work'', ''doe'', ''authentications'',
     ''systems'', ''works''] = (4, 0)"
  "count_matches (lower (content business_001))
     [''does'', ''authentication'', ''system'', ''work'', ''doe'', ''authentications'',
     ''systems'', ''works''] = (0, 0)"
  "count_matches (lower (content trends_001))
     [''does'', ''authentication'', ''system'', ''work'', ''doe'', ''authentications'',
     ''systems'', ''works''] = (2, 0)"
  "count_matches (lower (content training_001))
     [''does'', ''authentication'', ''system'', ''work'', ''doe'', ''authentications'',
     ''systems'', ''works''] = (0, 0)"
  "count_matches (lower (content general_001))
     [''does'', ''authentication'', ''system'', ''work'', ''doe'', ''authentications'',
     ''systems'', ''works''] = (0, 0)"
  "count_matches (lower (content challenges_001))
     [''does'', ''authentication'', ''system'', ''work'', ''doe'', ''authentications'',
     ''systems'', ''works''] = (2, 1)"
  by (simp_all del: startswith.simps(3) split_acc.simps(2) add: doc_defs str_eval match_eval)

lemma auth_below:
  "calculate_relevance policy_001 ''How does the authentication system work?'' p = Inr 0"
  "calculate_relevance tech_001 ''How does the authentication system work?'' p = Inr 0"
  "calculate_relevance business_001 ''How does the authentication system work?'' p = Inr 0"
  "calculate_relevance trends_001 ''How does the authentication system work?'' p = Inr 0"
  "calculate_relevance training_001 ''How does the authentication system work?'' p = Inr 0"
  "calculate_relevance general_001 ''How does the authentication system work?'' p = Inr 0"
  "calculate_relevance challenges_001 ''How does the authentication system work?'' p = Inr 0"
proof -
  show "calculate_relevance policy_001 ''How does the authentication system work?'' p = Inr 0"
    by (rule calculate_relevance_below_coverage [OF auth_terms _ auth_counts(1) refl])
      simp_all
  show "calculate_relevance tech_001 ''How does the authentication system work?'' p = Inr 0"
    by (rule calculate_relevance_below_coverage [OF auth_terms _ auth_counts(2) refl])
      simp_all
  show "calculate_relevance business_001 ''How does the authentication system work?'' p = Inr 0"
    by (rule calculate_relevance_below_coverage [OF auth_terms _ auth_counts(3) refl])
      simp_all
  show "calculate_relevance trends_001 ''How does the authentication system work?'' p = Inr 0"
    by (rule calculate_relevance_below_coverage [OF auth_terms _ auth_counts(4) refl])
      simp_all
  show "calculate_relevance training_001 ''How does the authentication system work?'' p = Inr 0"
    by (rule calculate_relevance_below_coverage [OF auth_terms _ auth_counts(5) refl])
      simp_all
  show "calculate_relevance general_001 ''How does the authentication system work?'' p = Inr 0"
    by (rule calculate_relevance_below_coverage [OF auth_terms _ auth_counts(6) refl])
      simp_all
  show "calculate_relevance challenges_001 ''How does the authentication system work?'' p = Inr 0"
    by (rule calculate_relevance_below_coverage [OF auth_terms _ auth_counts(7) refl])
      simp_all
qed

lemma auth_score_all:
  "score_all ''How does the authentication system work?'' p DocumentStore_init =
     Inr [(''policy_001'', policy_001\<lparr>relevance_score := 0\<rparr>),
          (''tech_001'', tech_001\<lparr>relevance_score := 0\<rparr>),
          (''business_001'', business_001\<lparr>relevance_score := 0\<rparr>),
          (''trends_001'', trends_001\<lparr>relevance_score := 0\<rparr>),
          (''training_001'', training_001\<lparr>relevance_score := 0\<rparr>),
          (''general_001'', general_001\<lparr>relevance_score := 0\<rparr>),
          (''challenges_001'', challenges_001\<lparr>relevance_score := 0\<rparr>)]"
  by (simp add: DocumentStore_init_eq auth_below)

lemma auth_retrieve:
  "retrieve_documents DocumentStore_init ''How does the authentication system work?'' p k =
     Inr (\<lparr>documents = [], query = ''How does the authentication system work?'', persona = p,
            total_retrieved = 0,
            retrieval_metadata = [(''reason'', VStr ''no_relevant_documents'')]\<rparr>,
          [(''policy_001'', policy_001\<lparr>relevance_score := 0\<rparr>),
          (''tech_001'', tech_001\<lparr>relevance_score := 0\<rparr>),
          (''business_001'', business_001\<lparr>relevance_score := 0\<rparr>),
          (''trends_001'', trends_001\<lparr>relevance_score := 0\<rparr>),
          (''training_001'', training_001\<lparr>relevance_score := 0\<rparr>),
          (''general_001'', general_001\<lparr>relevance_score := 0\<rparr>),
          (''challenges_001'', challenges_001\<lparr>relevance_score := 0\<rparr>)])"
  by (rule retrieve_documents_no_relevant [OF auth_score_all]) (simp add: get_all_documents_def)

subsection \<open>The unmatched query\<close>

lemma nonsense_terms:
  "expanded_terms (query_terms (lower ''zzqqxx nonsense unmatched''))
     = [''zzqqxx'', ''nonsense'', ''unmatched'', ''zzqqxxs'', ''nonsenses'', ''unmatcheds'']"
  by (simp del: startswith.simps(3) split_acc.simps(2) add: terms_eval str_eval)

lemma nonsense_counts:
  "count_matches (lower (content policy_001))
     [''zzqqxx'', ''nonsense'', ''unmatched'', ''zzqqxxs'', ''nonsenses'', ''unmatcheds''] = (0, 0)"
  "count_matches (lower (content tech_001))
     [''zzqqxx'', ''nonsense'', ''unmatched'', ''zzqqxxs'', ''nonsenses'', ''unmatcheds''] = (0, 0)"
  "count_matches (lower (content business_001))
     [''zzqqxx'', ''nonsense'', ''unmatched'', ''zzqqxxs'', ''nonsenses'', ''unmatcheds''] = (0, 0)"
  "count_matches (lower (content trends_001))
     [''zzqqxx'', ''nonsense'', ''unmatched'', ''zzqqxxs'', ''nonsenses'', ''unmatcheds''] = (0, 0)"
  "count_matches (lower (content training_001))
     [''zzqqxx'', ''nonsense'', ''unmatched'', ''zzqqxxs'', ''nonsenses'', ''unmatcheds''] = (0, 0)"
  "count_matches (lower (content general_001))
     [''zzqqxx'', ''nonsense'', ''unmatched'', ''zzqqxxs'', ''nonsenses'', ''unmatcheds''] = (0, 0)"
  "count_matches (lower (content challenges_001))
     [''zzqqxx'', ''nonsense'', ''unmatched'', ''zzqqxxs'', ''nonsenses'', ''unmatcheds''] = (0, 0)"
  by (simp_all del: startswith.simps(3) split_acc.simps(2) add: doc_defs str_eval match_eval)

lemma nonsense_below:
  "calculate_relevance policy_001 ''zzqqxx nonsense unmatched'' p = Inr 0"
  "calculate_relevance tech_001 ''zzqqxx nonsense unmatched'' p = Inr 0"
  "calculate_relevance business_001 ''zzqqxx nonsense unmatched'' p = Inr 0"
  "calculate_relevance trends_001 ''zzqqxx nonsense unmatched'' p = Inr 0"
  "calculate_relevance training_001 ''zzqqxx nonsense unmatched'' p = Inr 0"
  "calculate_relevance general_001 ''zzqqxx nonsense unmatched'' p = Inr 0"
  "calculate_relevance challenges_001 ''zzqqxx nonsense unmatched'' p = Inr 0"
proof -
  show "calculate_relevance policy_001 ''zzqqxx nonsense unmatched'' p = Inr 0"
    by (rule calculate_relevance_below_coverage [OF nonsense_terms _ nonsense_counts(1) refl])
      simp_all
  show "calculate_relevance tech_001 ''zzqqxx nonsense unmatched'' p = Inr 0"
    by (rule calculate_relevance_below_coverage [OF nonsense_terms _ nonsense_counts(2) refl])
      simp_all
  show "calculate_relevance business_001 ''zzqqxx nonsense unmatched'' p = Inr 0"
    by (rule calculate_relevance_below_coverage [OF nonsense_terms _ nonsense_counts(3) refl])
      simp_all
  show "calculate_relevance trends_001 ''zzqqxx nonsense unmatched'' p = Inr 0"
    by (rule calculate_relevance_below_coverage [OF nonsense_terms _ nonsense_counts(4) refl])
      simp_all
  show "calculate_relevance training_001 ''zzqqxx nonsense unmatched'' p = Inr 0"
    by (rule calculate_relevance_below_coverage [OF nonsense_terms _ nonsense_counts(5) refl])
      simp_all
  show "calculate_relevance general_001 ''zzqqxx nonsense unmatched'' p = Inr 0"
    by (rule calculate_relevance_below_coverage [OF nonsense_terms _ nonsense_counts(6) refl])
      simp_all
  show "calculate_relevance challenges_001 ''zzqqxx nonsense unmatched'' p = Inr 0"
    by (rule calculate_relevance_below_coverage [OF nonsense_terms _ nonsense_counts(7) refl])
      simp_all
qed

lemma nonsense_score_all:
  "score_all ''zzqqxx nonsense unmatched'' p DocumentStore_init =
     Inr [(''policy_001'', policy_001\<lparr>relevance_score := 0\<rparr>),
          (''tech_001'', tech_001\<lparr>relevance_score := 0\<rparr>),
          (''business_001'', business_001\<lparr>relevance_score := 0\<rparr>),
          (''trends_001'', trends_001\<lparr>relevance_score := 0\<rparr>),
          (''training_001'', training_001\<lparr>relevance_score := 0\<rparr>),
          (''general_001'', general_001\<lparr>relevance_score := 0\<rparr>),
          (''challenges_001'', challenges_001\<lparr>relevance_score := 0\<rparr>)]"
  by (simp add: DocumentStore_init_eq nonsense_below)

lemma nonsense_retrieve:
  "retrieve_documents DocumentStore_init ''zzqqxx nonsense unmatched'' p k =
     Inr (\<lparr>documents = [], query = ''zzqqxx nonsense unmatched'', persona = p,
            total_retrieved = 0,
            retrieval_metadata = [(''reason'', VStr ''no_relevant_documents'')]\<rparr>,
          [(''policy_001'', policy_001\<lparr>relevance_score := 0\<rparr>),
          (''tech_001'', tech_001\<lparr>relevance_score := 0\<rparr>),
          (''business_001'', business_001\<lparr>relevance_score := 0\<rparr>),
          (''trends_001'', trends_001\<lparr>relevance_score := 0\<rparr>),
          (''training_001'', training_001\<lparr>relevance_score := 0\<rparr>),
          (''general_001'', general_001\<lparr>relevance_score := 0\<rparr>),
          (''challenges_001'', challenges_001\<lparr>relevance_score := 0\<rparr>)])"
  by (rule retrieve_documents_no_relevant [OF nonsense_score_all])
    (simp add: get_all_documents_def)

subsection \<open>The revenue query for the HR Specialist persona\<close>

lemma revenue_terms:
  "expanded_terms (query_terms (lower ''revenue''))
     = [''revenue'', ''revenues'']"
  by (simp del: startswith.simps(3) split_acc.simps(2) add: terms_eval str_eval)

lemma revenue_counts:
  "count_matches (lower (content policy_001))
     [''revenue'', ''revenues''] = (0, 0)"
  "count_matches (lower (content tech_001))
     [''revenue'', ''revenues''] = (0, 0)"
  "count_matches (lower (content business_001))
     [''revenue'', ''revenues''] = (2, 0)"
  "count_matches (lower (content trends_001))
     [''revenue'', ''revenues''] = (0, 0)"
  "count_matches (lower (content training_001))
     [''revenue'', ''revenues''] = (0, 0)"
  "count_matches (lower (content general_001))
     [''revenue'', ''revenues''] = (0, 0)"
  "count_matches (lower (content challenges_001))
     [''revenue'', ''revenues''] = (0, 0)"
  by (simp_all del: startswith.simps(3) split_acc.simps(2) add: doc_defs str_eval match_eval)

lemma revenue_below:
  "calculate_relevance policy_001 ''revenue'' p = Inr 0"
  "calculate_relevance tech_001 ''revenue'' p = Inr 0"
  "calculate_relevance trends_001 ''revenue'' p = Inr 0"
  "calculate_relevance training_001 ''revenue'' p = Inr 0"
  "calculate_relevance general_001 ''revenue'' p = Inr 0"
  "calculate_relevance challenges_001 ''revenue'' p = Inr 0"
proof -
  show "calculate_relevance policy_001 ''revenue'' p = Inr 0"
    by (rule calculate_relevance_below_coverage [OF revenue_terms _ revenue_counts(1) refl])
      simp_all
  show "calculate_relevance tech_001 ''revenue'' p = Inr 0"
    by (rule calculate_relevance_below_coverage [OF revenue_terms _ revenue_counts(2) refl])
      simp_all
  show "calculate_relevance trends_001 ''revenue'' p = Inr 0"
    by (rule calculate_relevance_below_coverage [OF revenue_terms _ revenue_counts(4) refl])
      simp_all
  show "calculate_relevance training_001 ''revenue'' p = Inr 0"
    by (rule calculate_relevance_below_coverage [OF revenue_terms _ revenue_counts(5) refl])
      simp_all
  show "calculate_relevance general_001 ''revenue'' p = Inr 0"
    by (rule calculate_relevance_below_coverage [OF revenue_terms _ revenue_counts(6) refl])
      simp_all
  show "calculate_relevance challenges_001 ''revenue'' p = Inr 0"
    by (rule calculate_relevance_below_coverage [OF revenue_terms _ revenue_counts(7) refl])
      simp_all
qed

lemma persona_filters_HR:
  "persona_filters ''HR Specialist'' = Some
       \<lparr>preferred_types = [POLICY, TRAINING, DocumentType.GENERAL, BUSINESS],
        content_keywords = [''policy'', ''employee'', ''compliance'', ''process'', ''procedure'',
          ''business'', ''trends'', ''challenges'', ''industry''],
        exclude_keywords = [''code'', ''technical'', ''revenue'', ''financial''],
        max_documents = 4, min_relevance = 3 / 10\<rparr>"
  by (simp add: persona_filters_def)

lemma revenue_query_topics:
  "\<not> str_in ''authentication'' ''revenue''" "\<not> str_in ''system'' ''revenue''"
  "\<not> str_in ''jwt'' ''revenue''" "\<not> str_in ''token'' ''revenue''"
  "\<not> str_in ''cybersecurity'' ''revenue''"
  by (simp_all del: startswith.simps(3) add: str_eval)

lemma business_001_words:
  "\<not> str_in ''policy'' (lower (content business_001))"
  "\<not> str_in ''employee'' (lower (content business_001))"
  "\<not> str_in ''compliance'' (lower (content business_001))"
  "\<not> str_in ''process'' (lower (content business_001))"
  "\<not> str_in ''procedure'' (lower (content business_001))"
  "\<not> str_in ''business'' (lower (content business_001))"
  "\<not> str_in ''trends'' (lower (content business_001))"
  "\<not> str_in ''challenges'' (lower (content business_001))"
  "\<not> str_in ''industry'' (lower (content business_001))"
  "\<not> str_in ''code'' (lower (content business_001))"
  "\<not> str_in ''technical'' (lower (content business_001))"
  "str_in ''revenue'' (lower (content business_001))"
  "str_in ''financial'' (lower (content business_001))"
  by (simp_all del: startswith.simps(3) add: doc_defs str_eval)

lemma revenue_bonus_HR:
  "topic_bonus (lower ''revenue'') (lower (content business_001)) = 0"
  "keyword_bonus (persona_keywords ''HR Specialist'') (lower (content business_001)) = 0"
  "type_bonus ''HR Specialist'' business_001 = 2 / 10"
  unfolding lower_keywords
  by (simp_all del: str_in.simps
      add: topic_bonus_def keyword_bonus_def type_bonus_def persona_keywords_def
        persona_types_def persona_filters_HR lower_keywords revenue_query_topics
        business_001_words)

lemma revenue_score_HR:
  "calculate_relevance business_001 ''revenue'' ''HR Specialist'' = Inr (7 / 17)"
  using calculate_relevance_scored [OF revenue_terms _ revenue_counts(3) refl _ sample_words(2) _ refl,
      of "''HR Specialist''"]
  by (simp add: revenue_bonus_HR)

lemma revenue_score_all_HR:
  "score_all ''revenue'' ''HR Specialist'' DocumentStore_init =
     Inr [(''policy_001'', policy_001\<lparr>relevance_score := 0\<rparr>),
          (''tech_001'', tech_001\<lparr>relevance_score := 0\<rparr>),
          (''business_001'', business_001\<lparr>relevance_score := 7 / 17\<rparr>),
          (''trends_001'', trends_001\<lparr>relevance_score := 0\<rparr>),
          (''training_001'', training_001\<lparr>relevance_score := 0\<rparr>),
          (''general_001'', general_001\<lparr>relevance_score := 0\<rparr>),
          (''challenges_001'', challenges_001\<lparr>relevance_score := 0\<rparr>)]"
  by (simp add: DocumentStore_init_eq revenue_below revenue_score_HR)

lemma revenue_reject_HR:
  "\<not> passes_filter
     \<lparr>preferred_types = [POLICY, TRAINING, DocumentType.GENERAL, BUSINESS],
        content_keywords = [''policy'', ''employee'', ''compliance'', ''process'', ''procedure'',
          ''business'', ''trends'', ''challenges'', ''industry''],
        exclude_keywords = [''code'', ''technical'', ''revenue'', ''financial''],
        max_documents = 4, min_relevance = 3 / 10\<rparr> (business_001\<lparr>relevance_score := 7 / 17\<rparr>)"
  by (simp del: str_in.simps add: passes_filter_def lower_keywords business_001_words)

lemma revenue_retrieve_HR:
  "retrieve_documents DocumentStore_init ''revenue'' ''HR Specialist'' 10 =
     Inr (\<lparr>documents = [], query = ''revenue'', persona = ''HR Specialist'',
            total_retrieved = 0, retrieval_metadata = [(''avg_relevance'', VNum 0)]\<rparr>,
          [(''policy_001'', policy_001\<lparr>relevance_score := 0\<rparr>),
          (''tech_001'', tech_001\<lparr>relevance_score := 0\<rparr>),
          (''business_001'', business_001\<lparr>relevance_score := 7 / 17\<rparr>),
          (''trends_001'', trends_001\<lparr>relevance_score := 0\<rparr>),
          (''training_001'', training_001\<lparr>relevance_score := 0\<rparr>),
          (''general_001'', general_001\<lparr>relevance_score := 0\<rparr>),
          (''challenges_001'', challenges_001\<lparr>relevance_score := 0\<rparr>)])"
  unfolding retrieve_documents_def revenue_score_all_HR
  by (simp add: get_all_documents_def sort_by_relevance_def slice_to_def filter_documents_def
      persona_filters_HR revenue_reject_HR avg_relevance_def)

section \<open>Scenario results\<close>

text \<open>
  Claim C2, as the code has it. On the sample corpus,
  \<^verbatim>\<open>retrieve_documents("What is the remote work policy?", "Executive", 10)\<close> returns
  two documents. The business trends document \<open>trends_001\<close> is ranked first with score
  17/38 (the Executive keyword "risk" and the business type add 0.3 to it), the Remote
  Work Policy document \<open>policy_001\<close> is second with score 13/30, and the reported average
  relevance is 251/570, which is greater than 0.3.
\<close>

theorem remote_work_policy_ranked_second:
  "returned_scores
     (retrieve_documents DocumentStore_init ''What is the remote work policy?'' ''Executive'' 10)
     = Inr [(''trends_001'', 17 / 38), (''policy_001'', 13 / 30)]
   \<and> returned_metadata
     (retrieve_documents DocumentStore_init ''What is the remote work policy?'' ''Executive'' 10)
     = Inr [(''avg_relevance'', VNum (251 / 570))]
   \<and> (13 / 30 :: rat) < 17 / 38 \<and> (3 / 10 :: rat) < 251 / 570"
  by (simp add: remote_retrieve_Executive returned_scores_def returned_metadata_def doc_defs)

text \<open>
  The top-ranked document of that call is \<open>trends_001\<close>, not the Remote Work Policy
  document \<open>policy_001\<close>.
\<close>

theorem remote_work_policy_not_top_counterexample:
  "top_id
     (retrieve_documents DocumentStore_init ''What is the remote work policy?'' ''Executive'' 10)
     = Some ''trends_001''
   \<and> top_id
     (retrieve_documents DocumentStore_init ''What is the remote work policy?'' ''Executive'' 10)
     \<noteq> Some ''policy_001''"
  by (simp add: remote_retrieve_Executive top_id_def doc_defs)

text \<open>
  Claim C3, as the code has it. The query "How does the authentication system work?"
  has eight candidate terms, because "does" is not a stop word and every term brings its
  variant. The Authentication System document \<open>tech_001\<close> matches two of them exactly,
  a weighted total of 4 out of 16, so its coverage 0.25 is below the cutoff 0.3: its score
  is 0.0 under every persona, Developer and HR Specialist alike, no topic bonus is
  added, and on the sample corpus the retrieval returns no document, with the reason
  code \<open>no_relevant_documents\<close>.
\<close>

theorem authentication_query_below_coverage:
  "expanded_terms (query_terms (lower ''How does the authentication system work?''))
     = [''does'', ''authentication'', ''system'', ''work'', ''doe'', ''authentications'',
        ''systems'', ''works'']
   \<and> count_matches (lower (content tech_001))
       [''does'', ''authentication'', ''system'', ''work'', ''doe'', ''authentications'',
        ''systems'', ''works''] = (4, 0)
   \<and> calculate_relevance tech_001 ''How does the authentication system work?'' p = Inr 0
   \<and> returned_scores
       (retrieve_documents DocumentStore_init ''How does the authentication system work?'' p k)
       = Inr []
   \<and> returned_metadata
       (retrieve_documents DocumentStore_init ''How does the authentication system work?'' p k)
       = Inr [(''reason'', VStr ''no_relevant_documents'')]"
  by (simp add: auth_terms auth_counts auth_below auth_retrieve returned_scores_def
      returned_metadata_def)

text \<open>
  The score of \<open>tech_001\<close> for that query is 0.0 under Developer and under
  HR Specialist, so the first is not greater than the second, and the Developer retrieval
  has no top result.
\<close>

theorem authentication_query_scores_equal_counterexample:
  "calculate_relevance tech_001 ''How does the authentication system work?'' ''Developer''
     = Inr 0
   \<and> calculate_relevance tech_001 ''How does the authentication system work?''
       ''HR Specialist'' = Inr 0
   \<and> top_id
       (retrieve_documents DocumentStore_init ''How does the authentication system work?''
          ''Developer'' 10) = None"
  by (simp add: auth_below auth_retrieve top_id_def)

text \<open>
  Claim C8, as the code has it. When \<^verbatim>\<open>retrieve_documents\<close> returns an empty
  document list, the metadata holds the reason code \<open>no_relevant_documents\<close> if no
  document scored above 0.1, and otherwise (documents scored above 0.1 but the slice or
  the persona filter removed them all) it holds \<open>avg_relevance\<close> 0 and no reason code.
  The query "zzqqxx nonsense unmatched" yields, on the sample corpus and for every persona
  and every \<open>top_k\<close>, an empty list with the reason code.
\<close>

theorem empty_result_reason_or_zero_average:
  assumes "retrieve_documents store q p k = Inr (r, s')" and "documents r = []"
  shows "(retrieval_metadata r = [(''reason'', VStr ''no_relevant_documents'')]
          \<or> retrieval_metadata r = [(''avg_relevance'', VNum 0)])
    \<and> ((retrieval_metadata r = [(''reason'', VStr ''no_relevant_documents'')])
         = (filter (\<lambda>doc. relevance_score doc > 1 / 10) (get_all_documents s') = []))
    \<and> returned_scores
         (retrieve_documents DocumentStore_init ''zzqqxx nonsense unmatched'' p' k') = Inr []
    \<and> returned_metadata
         (retrieve_documents DocumentStore_init ''zzqqxx nonsense unmatched'' p' k')
         = Inr [(''reason'', VStr ''no_relevant_documents'')]"
proof -
  obtain s0 where s0: "score_all q p store = Inr s0"
    using score_all_shape [of q p store] by blast
  let ?scored = "filter (\<lambda>doc. relevance_score doc > 1 / 10) (get_all_documents s0)"
  have general:
    "(retrieval_metadata r = [(''reason'', VStr ''no_relevant_documents'')]
          \<or> retrieval_metadata r = [(''avg_relevance'', VNum 0)])
    \<and> ((retrieval_metadata r = [(''reason'', VStr ''no_relevant_documents'')])
         = (filter (\<lambda>doc. relevance_score doc > 1 / 10) (get_all_documents s') = []))"
  proof (cases "?scored = []")
    case True
    with s0 assms(1) have "s' = s0"
      and "retrieval_metadata r = [(''reason'', VStr ''no_relevant_documents'')]"
      by (auto simp add: retrieve_documents_def)
    with True show ?thesis by simp
  next
    case False
    let ?f = "filter_documents (slice_to (sort_by_relevance ?scored) k) p"
    obtain a where a: "avg_relevance ?f = Inr a"
      using avg_relevance_total [of ?f] by blast
    with s0 False assms(1) have s': "s' = s0" and docs: "documents r = ?f"
      and meta: "retrieval_metadata r = [(''avg_relevance'', VNum a)]"
      by (auto simp add: retrieve_documents_def Let_def)
    from docs assms(2) have "?f = []" by simp
    with a have "a = 0" by (simp add: avg_relevance_def)
    with meta s' False show ?thesis by simp
  qed
  have scenario:
    "returned_scores
         (retrieve_documents DocumentStore_init ''zzqqxx nonsense unmatched'' p' k') = Inr []
    \<and> returned_metadata
         (retrieve_documents DocumentStore_init ''zzqqxx nonsense unmatched'' p' k')
         = Inr [(''reason'', VStr ''no_relevant_documents'')]"
    by (simp add: nonsense_retrieve returned_scores_def returned_metadata_def)
  from general scenario show ?thesis by blast
qed

theorem empty_result_reason_or_zero_average_witness:
  "retrieve_documents DocumentStore_init ''revenue'' ''HR Specialist'' 10
     = Inr (revenue_HR_result, revenue_HR_store)
   \<and> documents revenue_HR_result = []
   \<and> retrieval_metadata revenue_HR_result = [(''avg_relevance'', VNum 0)]
   \<and> filter (\<lambda>doc. relevance_score doc > 1 / 10) (get_all_documents revenue_HR_store) \<noteq> []
   \<and> returned_metadata
         (retrieve_documents DocumentStore_init ''zzqqxx nonsense unmatched'' ''Student'' 3)
         = Inr [(''reason'', VStr ''no_relevant_documents'')]"
proof -
  have run: "retrieve_documents DocumentStore_init ''revenue'' ''HR Specialist'' 10
     = Inr (revenue_HR_result, revenue_HR_store)"
    by (simp add: revenue_retrieve_HR revenue_HR_result_def revenue_HR_store_def)
  have empty: "documents revenue_HR_result = []"
    by (simp add: revenue_HR_result_def)
  from empty_result_reason_or_zero_average [OF run empty, of "''Student''" 3] run empty
  show ?thesis by (simp add: revenue_HR_result_def)
qed

text \<open>
  On the sample corpus, \<^verbatim>\<open>retrieve_documents("revenue", "HR Specialist", 10)\<close> returns
  an empty document list whose metadata is \<open>avg_relevance\<close> 0, without a reason code: the
  financial results document scores 7/17 and is then rejected by the persona filter.
\<close>

theorem empty_result_without_reason_counterexample:
  "returned_scores (retrieve_documents DocumentStore_init ''revenue'' ''HR Specialist'' 10)
     = Inr []
   \<and> returned_metadata (retrieve_documents DocumentStore_init ''revenue'' ''HR Specialist'' 10)
     = Inr [(''avg_relevance'', VNum 0)]
   \<and> map_of [(''avg_relevance'', VNum 0)] ''reason'' = None"
  by (simp add: revenue_retrieve_HR returned_scores_def returned_metadata_def)

section \<open>The scorer computes the specified formula\<close>

lemma endswith_iff: "endswith s p \<longleftrightarrow> (\<exists>pre. s = pre @ p)"
proof
  assume "endswith s p"
  then have "s = take (length s - length p) s @ p"
    by (metis append_take_drop_id endswith_def)
  then show "\<exists>pre. s = pre @ p" ..
next
  assume "\<exists>pre. s = pre @ p"
  then show "endswith s p" by (auto simp: endswith_def)
qed

lemma occurs_at_iff:
  "occurs_at doc t i \<longleftrightarrow> (\<exists>pre post. doc = pre @ t @ post \<and> length pre = i)"
proof
  assume o: "occurs_at doc t i"
  then have le: "i + length t \<le> length doc" and tk: "take (length t) (drop i doc) = t"
    by (simp_all add: occurs_at_def)
  have "doc = take i doc @ (take (length t) (drop i doc) @ drop (length t) (drop i doc))"
    by (simp only: append_take_drop_id)
  then have "doc = take i doc @ t @ drop (length t) (drop i doc)" by (simp only: tk)
  moreover have "length (take i doc) = i" using le by simp
  ultimately show "\<exists>pre post. doc = pre @ t @ post \<and> length pre = i" by blast
next
  assume "\<exists>pre post. doc = pre @ t @ post \<and> length pre = i"
  then show "occurs_at doc t i" by (auto simp: occurs_at_def)
qed

lemma list_ex_upto: "list_ex P [0..<Suc n] \<longleftrightarrow> (\<exists>i\<le>n. P i)"
  unfolding list_ex_iff by (auto simp del: upt_Suc simp add: less_Suc_eq_le)

lemma occurs_iff_str_in:
  "list_ex (occurs_at doc t) [0..<Suc (length doc)] \<longleftrightarrow> str_in t doc"
proof -
  have "(\<exists>i\<le>length doc. occurs_at doc t i) \<longleftrightarrow> (\<exists>pre post. doc = pre @ t @ post)"
  proof
    assume "\<exists>i\<le>length doc. occurs_at doc t i"
    then show "\<exists>pre post. doc = pre @ t @ post" unfolding occurs_at_iff by blast
  next
    assume "\<exists>pre post. doc = pre @ t @ post"
    then obtain pre post where doc: "doc = pre @ t @ post" by blast
    then have "occurs_at doc t (length pre)" unfolding occurs_at_iff by blast
    moreover have "length pre \<le> length doc" using doc by simp
    ultimately show "\<exists>i\<le>length doc. occurs_at doc t i" by blast
  qed
  then show ?thesis by (simp only: list_ex_upto str_in_iff)
qed

lemma nth_before_term:
  "pre \<noteq> [] \<Longrightarrow> (pre @ t @ post) ! (length pre - 1) = last pre"
  by (simp add: nth_append last_conv_nth)

lemma nth_after_term:
  "post \<noteq> [] \<Longrightarrow> (pre @ t @ post) ! (length pre + length t) = hd post"
  by (simp add: nth_append hd_conv_nth)

lemma delimited_at_iff:
  "delimited_at doc t i \<longleftrightarrow>
     (\<exists>pre post. doc = pre @ t @ post \<and> length pre = i
        \<and> (pre = [] \<or> last pre = CHR '' '') \<and> (post = [] \<or> hd post = CHR '' ''))"
proof
  assume d: "delimited_at doc t i"
  then obtain pre post where doc: "doc = pre @ t @ post" and len: "length pre = i"
    by (auto simp: delimited_at_def occurs_at_iff)
  have l: "pre = [] \<or> last pre = CHR '' ''"
  proof (cases "pre = []")
    case False
    then have "doc ! (i - 1) = last pre"
      using doc len nth_before_term [of pre t post] by simp
    moreover have "i \<noteq> 0" using False len by auto
    ultimately show ?thesis using d by (simp add: delimited_at_def)
  qed simp
  have r: "post = [] \<or> hd post = CHR '' ''"
  proof (cases "post = []")
    case False
    then have "doc ! (i + length t) = hd post"
      using doc len nth_after_term [of post pre t] by simp
    moreover have "i + length t \<noteq> length doc" using False doc len by auto
    ultimately show ?thesis using d by (simp add: delimited_at_def)
  qed simp
  from doc len l r
  show "\<exists>pre post. doc = pre @ t @ post \<and> length pre = i
        \<and> (pre = [] \<or> last pre = CHR '' '') \<and> (post = [] \<or> hd post = CHR '' '')"
    by blast
next
  assume "\<exists>pre post. doc = pre @ t @ post \<and> length pre = i
        \<and> (pre = [] \<or> last pre = CHR '' '') \<and> (post = [] \<or> hd post = CHR '' '')"
  then obtain pre post where doc: "doc = pre @ t @ post" and len: "length pre = i"
    and l: "pre = [] \<or> last pre = CHR '' ''" and r: "post = [] \<or> hd post = CHR '' ''"
    by blast
  have o: "occurs_at doc t i" using doc len by (auto simp: occurs_at_iff)
  have l': "i = 0 \<or> doc ! (i - 1) = CHR '' ''"
  proof (cases "pre = []")
    case True
    then show ?thesis using len by simp
  next
    case False
    then have "doc ! (i - 1) = last pre"
      using doc len nth_before_term [of pre t post] by simp
    then show ?thesis using l False by simp
  qed
  have r': "i + length t = length doc \<or> doc ! (i + length t) = CHR '' ''"
  proof (cases "post = []")
    case True
    then show ?thesis using doc len by simp
  next
    case False
    then have "doc ! (i + length t) = hd post"
      using doc len nth_after_term [of post pre t] by simp
    then show ?thesis using r False by simp
  qed
  from o l' r' show "delimited_at doc t i" by (simp add: delimited_at_def)
qed

lemma exact_term_iff:
  "exact_term doc t \<longleftrightarrow>
     (\<exists>pre post. doc = pre @ t @ post
        \<and> (pre = [] \<or> last pre = CHR '' '') \<and> (post = [] \<or> hd post = CHR '' ''))"
proof -
  have "(\<exists>i\<le>length doc. delimited_at doc t i) \<longleftrightarrow>
     (\<exists>pre post. doc = pre @ t @ post
        \<and> (pre = [] \<or> last pre = CHR '' '') \<and> (post = [] \<or> hd post = CHR '' ''))"
  proof
    assume "\<exists>i\<le>length doc. delimited_at doc t i"
    then show "\<exists>pre post. doc = pre @ t @ post
        \<and> (pre = [] \<or> last pre = CHR '' '') \<and> (post = [] \<or> hd post = CHR '' '')"
      unfolding delimited_at_iff by blast
  next
    assume "\<exists>pre post. doc = pre @ t @ post
        \<and> (pre = [] \<or> last pre = CHR '' '') \<and> (post = [] \<or> hd post = CHR '' '')"
    then obtain pre post where doc: "doc = pre @ t @ post"
      and lr: "pre = [] \<or> last pre = CHR '' ''" "post = [] \<or> hd post = CHR '' ''"
      by blast
    then have "delimited_at doc t (length pre)" unfolding delimited_at_iff by blast
    moreover have "length pre \<le> length doc" using doc by simp
    ultimately show "\<exists>i\<le>length doc. delimited_at doc t i" by blast
  qed
  then show ?thesis by (simp only: exact_term_def list_ex_upto)
qed

lemma is_exact_iff: "is_exact t doc \<longleftrightarrow> exact_term doc t"
proof
  assume "is_exact t doc"
  then consider
    (mid) a b where "CHR '' '' # doc @ [CHR '' ''] = a @ (CHR '' '' # t @ [CHR '' '']) @ b"
    | (start) post where "doc = (t @ [CHR '' '']) @ post"
    | (ending) pre where "doc = pre @ (CHR '' '' # t)"
    by (auto simp: is_exact_def str_in_iff startswith_iff endswith_iff)
  then show "exact_term doc t"
  proof cases
    case mid
    show ?thesis
    proof (cases a)
      case Nil
      with mid have eq: "doc @ [CHR '' ''] = t @ CHR '' '' # b" by simp
      show ?thesis
      proof (cases b rule: rev_cases)
        case Nil
        with eq have "doc = [] @ t @ []" by simp
        then show ?thesis unfolding exact_term_iff by blast
      next
        case (snoc b' x)
        with eq have "doc @ [CHR '' ''] = (t @ CHR '' '' # b') @ [x]" by simp
        then have "doc = [] @ t @ (CHR '' '' # b')" by (simp only: append1_eq_conv) simp
        then show ?thesis unfolding exact_term_iff by (metis list.sel(1))
      qed
    next
      case (Cons y a')
      with mid have eq: "doc @ [CHR '' ''] = a' @ CHR '' '' # t @ CHR '' '' # b" by auto
      show ?thesis
      proof (cases b rule: rev_cases)
        case Nil
        with eq have "doc @ [CHR '' ''] = (a' @ CHR '' '' # t) @ [CHR '' '']" by simp
        then have "doc = (a' @ [CHR '' '']) @ t @ []" by (simp only: append1_eq_conv) simp
        then show ?thesis unfolding exact_term_iff by (metis last_snoc)
      next
        case (snoc b' x)
        with eq have "doc @ [CHR '' ''] = (a' @ CHR '' '' # t @ CHR '' '' # b') @ [x]" by simp
        then have "doc = (a' @ [CHR '' '']) @ t @ (CHR '' '' # b')"
          by (simp only: append1_eq_conv) simp
        then show ?thesis unfolding exact_term_iff by (metis last_snoc list.sel(1))
      qed
    qed
  next
    case start
    then have "doc = [] @ t @ (CHR '' '' # post)" by simp
    then show ?thesis unfolding exact_term_iff by (metis list.sel(1))
  next
    case ending
    then have "doc = (pre @ [CHR '' '']) @ t @ []" by simp
    then show ?thesis unfolding exact_term_iff by (metis last_snoc)
  qed
next
  assume "exact_term doc t"
  then obtain pre post where doc: "doc = pre @ t @ post"
    and l: "pre = [] \<or> last pre = CHR '' ''" and r: "post = [] \<or> hd post = CHR '' ''"
    unfolding exact_term_iff by blast
  obtain a where a: "CHR '' '' # pre = a @ [CHR '' '']"
  proof (cases "pre = []")
    case True
    then have "CHR '' '' # pre = [] @ [CHR '' '']" by simp
    then show ?thesis by (rule that)
  next
    case False
    with l have "pre = butlast pre @ [CHR '' '']" by (metis append_butlast_last_id)
    then have "CHR '' '' # pre = (CHR '' '' # butlast pre) @ [CHR '' '']" by simp
    then show ?thesis by (rule that)
  qed
  obtain b where b: "post @ [CHR '' ''] = CHR '' '' # b"
  proof (cases post)
    case Nil
    then have "post @ [CHR '' ''] = CHR '' '' # []" by simp
    then show ?thesis by (rule that)
  next
    case (Cons x xs)
    with r have "post @ [CHR '' ''] = CHR '' '' # (xs @ [CHR '' ''])" by simp
    then show ?thesis by (rule that)
  qed
  have "CHR '' '' # doc @ [CHR '' ''] = (CHR '' '' # pre) @ t @ (post @ [CHR '' ''])"
    using doc by simp
  also have "\<dots> = a @ (CHR '' '' # t @ [CHR '' '']) @ b"
    unfolding a b by simp
  finally have "str_in ('' '' @ t @ '' '') ('' '' @ doc @ '' '')"
    unfolding str_in_iff by auto
  then show "is_exact t doc" by (simp add: is_exact_def)
qed

lemma exact_term_str_in: "exact_term doc t \<Longrightarrow> str_in t doc"
  unfolding exact_term_iff str_in_iff by blast

lemma partial_term_iff: "partial_term doc t \<longleftrightarrow> str_in t doc \<and> \<not> exact_term doc t"
  by (simp only: partial_term_def occurs_iff_str_in)

lemma fold_match_step:
  "fold (match_step dl) ts (e, pm) =
     (e + 2 * length (filter (exact_term dl) ts), pm + length (filter (partial_term dl) ts))"
proof (induction ts arbitrary: e pm)
  case Nil
  then show ?case by simp
next
  case (Cons t ts)
  have step: "match_step dl t (e, pm) =
      (if exact_term dl t then (e + 2, pm) else if partial_term dl t then (e, pm + 1) else (e, pm))"
    using exact_term_str_in [of dl t]
    by (auto simp: match_step_def is_exact_iff partial_term_iff)
  have excl: "exact_term dl t \<Longrightarrow> \<not> partial_term dl t"
    by (simp add: partial_term_iff)
  show ?case
    using excl by (simp add: step Cons.IH)
qed

lemma count_matches_weighted:
  assumes "distinct ts"
  shows "(case count_matches dl ts of (e, pm) \<Rightarrow> e + pm) = weighted_matches dl ts"
proof -
  have "\<And>P. length (filter P ts) = card (Set.filter P (set ts))"
  proof -
    fix P :: "string \<Rightarrow> bool"
    have "distinct (filter P ts)" using assms by simp
    then have "length (filter P ts) = card (set (filter P ts))"
      by (rule distinct_card [symmetric])
    also have "set (filter P ts) = Set.filter P (set ts)" by auto
    finally show "length (filter P ts) = card (Set.filter P (set ts))" .
  qed
  then show ?thesis
    by (simp add: count_matches_def fold_match_step weighted_matches_def)
qed

text \<open>
  Claim C4. For every document, query and persona for which the candidate term set is not
  empty and the document has at least one word: with exact (delimited) term matches
  weighted 2 and partial matches weighted 1, the coverage being the weighted total over
  twice the number of candidate terms and the density the weighted total over the number
  of words, the score is 0.0 when the coverage is below 0.3 or the density below 0.01, and
  otherwise the minimum of 0.4 coverage + 0.2 density + topic bonus + keyword bonus + type
  bonus and 1.0.
\<close>

theorem score_formula:
  assumes "expanded_terms (query_terms (lower q)) \<noteq> []"
    and "1 \<le> length (split (lower (content d)))"
  shows "calculate_relevance d q p =
     Inr (if spec_query_coverage (lower (content d)) (expanded_terms (query_terms (lower q)))
               < 3 / 10
            \<or> spec_matched_density (lower (content d)) (expanded_terms (query_terms (lower q)))
               < 1 / 100
          then 0
          else min (4 / 10 * spec_query_coverage (lower (content d))
                               (expanded_terms (query_terms (lower q)))
                    + 2 / 10 * spec_matched_density (lower (content d))
                                 (expanded_terms (query_terms (lower q)))
                    + topic_bonus (lower q) (lower (content d))
                    + keyword_bonus (persona_keywords p) (lower (content d))
                    + type_bonus p d) 1)"
proof -
  let ?ts = "expanded_terms (query_terms (lower q))"
  let ?dl = "lower (content d)"
  obtain e pm where cm: "count_matches ?dl ?ts = (e, pm)" by (cases "count_matches ?dl ?ts")
  have d: "distinct ?ts" by (simp add: expanded_terms_def)
  have tm: "e + pm = weighted_matches ?dl ?ts"
    using count_matches_weighted [OF d, of ?dl] cm by simp
  have len: "length ?ts * 2 = 2 * card (set ?ts)"
    using d by (simp add: distinct_card)
  have cov: "rat_of_nat (e + pm) / rat_of_nat (length ?ts * 2) = spec_query_coverage ?dl ?ts"
    unfolding spec_query_coverage_def tm len ..
  have dens: "rat_of_nat (e + pm) / rat_of_nat (length (split ?dl)) = spec_matched_density ?dl ?ts"
    unfolding spec_matched_density_def tm ..
  have w: "length (split ?dl) \<noteq> 0" using assms(2) by arith
  show ?thesis
  proof (cases "spec_query_coverage ?dl ?ts < 3 / 10")
    case True
    from calculate_relevance_below_coverage [OF refl assms(1) cm cov True, of p] True
    show ?thesis by (simp only: if_True simp_thms)
  next
    case high: False
    show ?thesis
    proof (cases "spec_matched_density ?dl ?ts < 1 / 100")
      case True
      from calculate_relevance_below_density [OF refl assms(1) cm cov high refl w dens True, of p]
        True
      show ?thesis by (simp only: if_True simp_thms)
    next
      case False
      from calculate_relevance_scored [OF refl assms(1) cm cov high refl w dens False, of p]
        high False
      show ?thesis by (simp only: if_False simp_thms mult.commute)
    qed
  qed
qed

theorem score_formula_witness:
  "expanded_terms (query_terms (lower ''What is the remote work policy?'')) \<noteq> []
   \<and> 1 \<le> length (split (lower (content policy_001)))
   \<and> (Inr (if spec_query_coverage (lower (content policy_001))
                 (expanded_terms (query_terms (lower ''What is the remote work policy?'')))
               < 3 / 10
            \<or> spec_matched_density (lower (content policy_001))
                 (expanded_terms (query_terms (lower ''What is the remote work policy?'')))
               < 1 / 100
          then 0
          else min (4 / 10 * spec_query_coverage (lower (content policy_001))
                      (expanded_terms (query_terms (lower ''What is the remote work policy?'')))
                    + 2 / 10 * spec_matched_density (lower (content policy_001))
                      (expanded_terms (query_terms (lower ''What is the remote work policy?'')))
                    + topic_bonus (lower ''What is the remote work policy?'')
                        (lower (content policy_001))
                    + keyword_bonus (persona_keywords ''Executive'') (lower (content policy_001))
                    + type_bonus ''Executive'' policy_001) 1) :: error + rat)
      = Inr (13 / 30)"
proof -
  have h1: "expanded_terms (query_terms (lower ''What is the remote work policy?'')) \<noteq> []"
    by (simp add: remote_terms)
  have h2: "1 \<le> length (split (lower (content policy_001)))"
    by (simp add: sample_words)
  from score_formula [OF h1 h2, of "''Executive''"] remote_scores_Executive(1) h1 h2
  show ?thesis by (simp only: simp_thms)
qed

section \<open>The prompt builder\<close>

lemma build_rag_context_prompt_total:
  "\<exists>c r s. build_rag_context_prompt self question p = Inr ((c, r), s)"
proof -
  from retrieve_documents_total [of "doc_store self" question "Persona_value p" 10]
  obtain r s' where "retrieve_documents (doc_store self) question (Persona_value p) 10
      = Inr (r, s')"
    by blast
  then show ?thesis by (simp add: build_rag_context_prompt_def)
qed

lemma getattr_total_docs_found:
  "getattr_RetrievalResult r ''total_docs_found'' = Inl (AttributeError ''total_docs_found'')"
  by (simp add: getattr_RetrievalResult_def)

text \<open>
  Claim C1 on the code. \<^verbatim>\<open>retrieve_documents\<close> returns a result for every store, query
  string, persona string and \<open>top_k\<close>. \<^verbatim>\<open>build_complete_prompt\<close> does not: for every
  question and every persona it reads the attribute \<open>total_docs_found\<close> of the retrieval
  result, which a \<^verbatim>\<open>RetrievalResult\<close> does not have, and raises \<^verbatim>\<open>AttributeError\<close>
  before any \<^verbatim>\<open>PromptComponents\<close> is built.
\<close>

theorem build_complete_prompt_raises:
  "build_complete_prompt self question p = Inl (AttributeError ''total_docs_found'')
   \<and> (\<exists>r s'. retrieve_documents store q persona_name top_k = Inr (r, s'))"
proof -
  from build_rag_context_prompt_total [of "self\<lparr>current_persona := p\<rparr>" question p]
  obtain c r s where "build_rag_context_prompt (self\<lparr>current_persona := p\<rparr>) question p
      = Inr ((c, r), s)"
    by blast
  then have "build_complete_prompt self question p = Inl (AttributeError ''total_docs_found'')"
    by (simp add: build_complete_prompt_def Let_def getattr_total_docs_found)
  with retrieve_documents_total [of store q persona_name top_k] show ?thesis by blast
qed

end
